theory Spec2Isabelle
  imports Complex_Main
begin

section \<open>Data model (types.ts)\<close>

text \<open>
  Conventions of the embedding.

  \<^item> A JavaScript \<open>number\<close> is modelled twice. The planning calculator and the
    detector are embedded over exact numbers, \<^typ>\<open>real\<close>: no rounding, no NaN, no
    Infinity. The planning calculator is embedded a second time over binary64 values,
    the type \<open>double\<close> below, where every operation rounds to nearest (ties to even),
    overflows to an infinity, and propagates NaN as the language does. Properties that
    the control flow decides are stated on the first embedding; properties that rounding
    or overflow can break are stated on the second. The records are parametric in the
    type of numbers. Every division of \<open>calculations.ts\<close> is guarded by the source
    itself (\<open>itemSales.length > 0\<close>, \<open>weightSum > 0\<close>, \<open>dailyDemand > 0\<close>,
    \<open>packSize > 0\<close>) or has a constant divisor, so no division by zero is hidden.
  \<^item> A field that holds a date as a string is modelled by what the code does with it:
    the truthiness test and \<open>new Date(s)\<close>. \<open>None\<close> is a falsy value
    (\<open>null\<close>, \<open>undefined\<close>, the empty string); \<open>Some Invalid_Date\<close> is a
    string that does not parse (time value NaN, for which every comparison is false);
    \<open>Some (Time_Value t)\<close> is a string that parses to \<open>t\<close> milliseconds since
    the epoch.
  \<^item> A \<open>Date\<close> object that is read through its accessors is the record of these
    accessors.
  \<^item> Fields that neither function reads (\<open>skuCode\<close>, \<open>category\<close>,
    \<open>costPerUnit\<close>, \<open>notes\<close>, \<open>receivedDate\<close>, \<open>quantityReceived\<close>,
    \<open>recipientsSnapshot\<close>, the currency and WhatsApp settings) are left out.
\<close>

datatype js_date = Invalid_Date | Time_Value int

type_synonym date_string = "js_date option"

record Date =
  getTime :: int
  getFullYear :: int
  getMonth :: int

datatype LotStatus = Available | Expired | Damaged

datatype ForecastMethod = SimpleAverage6Months | WeightedAverage

datatype LowStockRule = BelowDaysCover | BelowReorderPoint

datatype AlertType = LowStock | Expiry

datatype AlertStatus = Pending | Sent | Dismissed

record 'n Item =
  item_id :: string
  item_name :: string
  packSize :: 'n
  leadTimeDays :: 'n
  moq :: 'n
  shelfLifeDays :: "'n option"

record 'n InventoryLot =
  lot_id :: string
  lot_itemId :: string
  lotNumber :: string
  expiryDate :: date_string
  quantityRemaining :: 'n
  lot_status :: LotStatus

record 'n SalesHistory =
  sale_id :: string
  sale_itemId :: string
  month :: string
  quantitySold :: 'n

record 'n Settings =
  defaultLeadTimeDays :: 'n
  safetyStockDays :: 'n
  reviewPeriodDays :: 'n
  lowStockDaysCoverThreshold :: 'n
  expiryWarningDays :: 'n
  notificationCooldownHours :: 'n
  forecastMethod :: ForecastMethod
  weights :: "'n list"
  lowStockRule :: LowStockRule

text \<open>
  The message of an alert is a template string over the item's name, two numbers and the
  expiring lots. It is kept as the template's arguments: rendering a number as a string is
  the runtime's, and no decision of the detector reads the message.
\<close>

datatype AlertMessage =
  LowStockMessage string real int
  | ExpiryMessage string "(string \<times> date_string) list"

record InventoryAlert =
  alert_id :: string
  createdAt :: date_string
  alert_itemId :: string
  alert_type :: AlertType
  message :: AlertMessage
  alert_status :: AlertStatus
  lastSentAt :: date_string

record 'n ItemPlanningView =
  item :: "'n Item"
  lots :: "'n InventoryLot list"
  sales :: "'n SalesHistory list"
  availableStock :: 'n
  avgMonthlyDemand :: 'n
  dailyDemand :: 'n
  safetyStock :: 'n
  reorderPoint :: 'n
  suggestedOrderQty :: 'n
  freshnessCapApplied :: bool
  freshnessCapQty :: 'n
  projectedDaysCoverAfterOrder :: 'n
  daysCover :: 'n
  lowStockFlag :: bool
  expiringSoonLots :: "'n InventoryLot list"

section \<open>Runtime helpers\<close>

text \<open>Decimal rendering of an integer, as a template literal does it.\<close>

definition digit :: "int \<Rightarrow> char" where
  "digit d = ''0123456789'' ! nat d"

function show_digits :: "int \<Rightarrow> string" where
  "show_digits n =
     (if n < 10 then [digit n]
      else show_digits (n div 10) @ [digit (n mod 10)])"
  by pat_completeness auto
termination
  by (relation "measure nat") auto

declare show_digits.simps [simp del]

definition show_int :: "int \<Rightarrow> string" where
  "show_int i = (if i < 0 then CHR ''-'' # show_digits (- i) else show_digits i)"

text \<open>\<open>String(n).padStart(2, '0')\<close>\<close>

definition padStart2 :: "string \<Rightarrow> string" where
  "padStart2 s = replicate (2 - length s) CHR ''0'' @ s"

text \<open>
  \<open>new Date(year, monthIndex, 1)\<close> read back through \<open>getFullYear\<close> and
  \<open>getMonth\<close>: a year from 0 to 99 means 1900 + year, and a month index outside
  0..11 carries into the year.
\<close>

definition firstOfMonth :: "int \<Rightarrow> int \<Rightarrow> int \<times> int" where
  "firstOfMonth y m =
     (let yr = (if 0 \<le> y \<and> y \<le> 99 then 1900 + y else y)
      in (yr + m div 12, m mod 12))"

text \<open>\<open>Math.round\<close>: to the nearest integer, a half rounding up.\<close>

definition Math_round :: "real \<Rightarrow> int" where
  "Math_round x = \<lfloor>x + 1 / 2\<rfloor>"

text \<open>\<open>Math.ceil\<close>\<close>

definition Math_ceil :: "real \<Rightarrow> real" where
  "Math_ceil x = of_int \<lceil>x\<rceil>"

section \<open>Planning calculator over exact numbers (calculations.ts, calculateItemPlanning)\<close>

text \<open>\<open>new Date(l.expiryDate) > currentDate\<close>\<close>

fun date_after :: "js_date \<Rightarrow> Date \<Rightarrow> bool" where
  "date_after Invalid_Date currentDate = False"
| "date_after (Time_Value t) currentDate = (t > getTime currentDate)"

definition activeLots :: "'n Item \<Rightarrow> 'n InventoryLot list \<Rightarrow> 'n InventoryLot list" where
  "activeLots itm lts =
     filter (\<lambda>l. lot_itemId l = item_id itm \<and> lot_status l = Available) lts"

definition nonExpiredLots :: "'n Item \<Rightarrow> 'n InventoryLot list \<Rightarrow> Date \<Rightarrow> 'n InventoryLot list" where
  "nonExpiredLots itm lts currentDate =
     filter (\<lambda>l. case expiryDate l of None \<Rightarrow> True | Some d \<Rightarrow> date_after d currentDate)
       (activeLots itm lts)"

fun expiresSoon :: "real Settings \<Rightarrow> Date \<Rightarrow> real InventoryLot \<Rightarrow> bool" where
  "expiresSoon settings currentDate l =
     (case expiryDate l of
        None \<Rightarrow> False
      | Some Invalid_Date \<Rightarrow> False
      | Some (Time_Value t) \<Rightarrow>
          (let diff = real_of_int (t - getTime currentDate) / (1000 * 3600 * 24)
           in diff \<le> expiryWarningDays settings \<and> diff > 0))"

definition expiringSoon :: "real Item \<Rightarrow> real InventoryLot list \<Rightarrow> real Settings \<Rightarrow> Date \<Rightarrow> real InventoryLot list" where
  "expiringSoon itm lts settings currentDate =
     filter (expiresSoon settings currentDate) (activeLots itm lts)"

definition itemSales :: "'n Item \<Rightarrow> 'n SalesHistory list \<Rightarrow> 'n SalesHistory list" where
  "itemSales itm sls = filter (\<lambda>s. sale_itemId s = item_id itm) sls"

definition monthLabel :: "Date \<Rightarrow> nat \<Rightarrow> string" where
  "monthLabel currentDate i =
     (let d = firstOfMonth (getFullYear currentDate) (getMonth currentDate - int i)
      in show_int (fst d) @ ''-'' @ padStart2 (show_int (snd d + 1)))"

definition last6Months :: "Date \<Rightarrow> string list" where
  "last6Months currentDate = rev (map (monthLabel currentDate) [0..<6])"

text \<open>
  The body of the \<open>forEach\<close> of the weighted average: one month with its index, the
  accumulator being the pair \<open>(weightedSum, weightSum)\<close>.
\<close>

definition weightedStep ::
  "real Settings \<Rightarrow> real SalesHistory list \<Rightarrow> real \<times> real \<Rightarrow> nat \<times> string \<Rightarrow> real \<times> real" where
  "weightedStep settings isales acc im =
     (let monthSale = (case find (\<lambda>s. month s = snd im) isales of
                         None \<Rightarrow> 0 | Some s \<Rightarrow> quantitySold s);
          weight = (if fst im < length (weights settings)
                    then weights settings ! fst im else 0)
      in (fst acc + monthSale * weight, snd acc + weight))"

definition forecast :: "real Settings \<Rightarrow> real SalesHistory list \<Rightarrow> Date \<Rightarrow> real" where
  "forecast settings isales currentDate =
     (case forecastMethod settings of
        SimpleAverage6Months \<Rightarrow>
          (let totalSold = foldl (\<lambda>sum s. sum + quantitySold s) 0 isales
           in if length isales > 0
              then totalSold / real (max (length isales) 1) else 0)
      | WeightedAverage \<Rightarrow>
          (let ws = foldl (weightedStep settings isales) (0, 0)
                      (enumerate 0 (last6Months currentDate))
           in if snd ws > 0 then fst ws / snd ws else 0))"

definition calculateItemPlanning ::
  "real Item \<Rightarrow> real InventoryLot list \<Rightarrow> real SalesHistory list \<Rightarrow> real Settings \<Rightarrow> Date \<Rightarrow> real ItemPlanningView" where
  "calculateItemPlanning itm lts sls settings currentDate =
     (let availableStock' =
            foldl (\<lambda>sum lot. sum + quantityRemaining lot) 0 (nonExpiredLots itm lts currentDate);
          avgMonthlyDemand' = forecast settings (itemSales itm sls) currentDate;
          dailyDemand' = avgMonthlyDemand' / (304 / 10);
          safetyStock' = dailyDemand' * safetyStockDays settings;
          leadTime = (if leadTimeDays itm \<noteq> 0 then leadTimeDays itm
                      else defaultLeadTimeDays settings);
          reorderPoint' = dailyDemand' * leadTime + safetyStock';
          suggested0 =
            max 0 (reorderPoint' + dailyDemand' * reviewPeriodDays settings - availableStock');
          shelfLife = (case shelfLifeDays itm of None \<Rightarrow> 365 | Some d \<Rightarrow> d);
          maxFreshStock = dailyDemand' * shelfLife * (8 / 10);
          capQty = max 0 (maxFreshStock - availableStock');
          preCapSuggested = suggested0;
          suggested1 = min suggested0 capQty;
          freshnessCapApplied' = (suggested1 < preCapSuggested);
          suggested2 = (if suggested1 > 0 \<and> suggested1 < moq itm then moq itm else suggested1);
          suggested3 = (if suggested2 > 0 \<and> packSize itm > 0
                        then Math_ceil (suggested2 / packSize itm) * packSize itm
                        else suggested2);
          daysCover' = (if dailyDemand' > 0 then availableStock' / dailyDemand' else 999);
          projected = (if dailyDemand' > 0 then (availableStock' + suggested3) / dailyDemand'
                       else 999);
          lowStockFlag' =
            (case lowStockRule settings of
               BelowDaysCover \<Rightarrow> daysCover' < lowStockDaysCoverThreshold settings
             | BelowReorderPoint \<Rightarrow> availableStock' < reorderPoint')
      in \<lparr> item = itm,
           lots = activeLots itm lts,
           sales = itemSales itm sls,
           availableStock = availableStock',
           avgMonthlyDemand = avgMonthlyDemand',
           dailyDemand = dailyDemand',
           safetyStock = safetyStock',
           reorderPoint = reorderPoint',
           suggestedOrderQty = suggested3,
           freshnessCapApplied = freshnessCapApplied',
           freshnessCapQty = capQty,
           projectedDaysCoverAfterOrder = projected,
           daysCover = daysCover',
           lowStockFlag = lowStockFlag',
           expiringSoonLots = expiringSoon itm lts settings currentDate \<rparr>)"

section \<open>Alert detector (calculations.ts, detectAlerts)\<close>

text \<open>
  \<open>s && (now.getTime() - new Date(s).getTime()) / (1000 * 3600) < cooldown\<close> for a
  date string \<open>s\<close>.
\<close>

definition withinCooldown :: "real Settings \<Rightarrow> int \<Rightarrow> date_string \<Rightarrow> bool" where
  "withinCooldown settings now s =
     (case s of
        None \<Rightarrow> False
      | Some Invalid_Date \<Rightarrow> False
      | Some (Time_Value t) \<Rightarrow>
          real_of_int (now - t) / (1000 * 3600) < notificationCooldownHours settings)"

text \<open>
  The predicate given to \<open>existingAlerts.find\<close>. The source writes it twice, once with
  \<open>'lowStock'\<close> and once with \<open>'expiry'\<close>, otherwise character for character the
  same; here the type is an argument.
\<close>

definition recentAlert :: "real Settings \<Rightarrow> int \<Rightarrow> string \<Rightarrow> AlertType \<Rightarrow> InventoryAlert \<Rightarrow> bool" where
  "recentAlert settings now iid ty a =
     (alert_itemId a = iid \<and> alert_type a = ty \<and>
      (alert_status a = Pending \<or> withinCooldown settings now (lastSentAt a)))"

definition lowStockCheck ::
  "real ItemPlanningView \<Rightarrow> InventoryAlert list \<Rightarrow> real Settings \<Rightarrow> int \<Rightarrow> InventoryAlert list" where
  "lowStockCheck view existingAlerts settings now =
     (if lowStockFlag view then
        (case find (recentAlert settings now (item_id (item view)) LowStock) existingAlerts of
           None \<Rightarrow>
             [\<lparr> alert_id = ''lowStock_'' @ item_id (item view) @ ''_'' @ show_int now,
                createdAt = Some (Time_Value now),
                alert_itemId = item_id (item view),
                alert_type = LowStock,
                message = LowStockMessage (item_name (item view)) (availableStock view)
                            (Math_round (daysCover view)),
                alert_status = Pending,
                lastSentAt = None \<rparr>]
         | Some a \<Rightarrow> [])
      else [])"

definition expiryCheck ::
  "real ItemPlanningView \<Rightarrow> InventoryAlert list \<Rightarrow> real Settings \<Rightarrow> int \<Rightarrow> InventoryAlert list" where
  "expiryCheck view existingAlerts settings now =
     (if length (expiringSoonLots view) > 0 then
        (case find (recentAlert settings now (item_id (item view)) Expiry) existingAlerts of
           None \<Rightarrow>
             [\<lparr> alert_id = ''expiry_'' @ item_id (item view) @ ''_'' @ show_int now,
                createdAt = Some (Time_Value now),
                alert_itemId = item_id (item view),
                alert_type = Expiry,
                message = ExpiryMessage (item_name (item view))
                            (map (\<lambda>l. (lotNumber l, expiryDate l)) (expiringSoonLots view)),
                alert_status = Pending,
                lastSentAt = None \<rparr>]
         | Some a \<Rightarrow> [])
      else [])"

text \<open>
  \<open>detectAlerts\<close> reads the clock itself (\<open>const now = new Date()\<close>); the time
  value it reads is the argument \<open>now\<close>. The \<open>forEach\<close> pushes, for each view in
  order, the low-stock alert and then the expiry alert.
\<close>

definition detectAlerts ::
  "real ItemPlanningView list \<Rightarrow> InventoryAlert list \<Rightarrow> real Settings \<Rightarrow> int \<Rightarrow> InventoryAlert list" where
  "detectAlerts planningViews existingAlerts settings now =
     concat (map (\<lambda>view. lowStockCheck view existingAlerts settings now @
                          expiryCheck view existingAlerts settings now) planningViews)"

section \<open>The caller's filter (App component, alert detection effect)\<close>

text \<open>
  The effect that calls \<open>detectAlerts\<close> filters its result once more against the
  current alerts, with \<open>a.lastSentAt || a.createdAt\<close> as the timestamp.
\<close>

definition lastSentOrCreated :: "InventoryAlert \<Rightarrow> date_string" where
  "lastSentOrCreated a = (case lastSentAt a of Some d \<Rightarrow> Some d | None \<Rightarrow> createdAt a)"

definition uniqueAlerts ::
  "InventoryAlert list \<Rightarrow> InventoryAlert list \<Rightarrow> real Settings \<Rightarrow> int \<Rightarrow> InventoryAlert list" where
  "uniqueAlerts newAlerts currentAlerts settings now =
     filter (\<lambda>na. find (\<lambda>a. alert_itemId a = alert_itemId na \<and> alert_type a = alert_type na \<and>
                             (alert_status a = Pending \<or>
                              withinCooldown settings now (lastSentOrCreated a)))
                     currentAlerts = None) newAlerts"

section \<open>Binary64 numbers\<close>

text \<open>
  A binary64 value is NaN, an infinity, or a finite value given by its exact rational
  value. The two zeros are one value, \<open>Finite 0\<close>: no operation of the calculator tells
  them apart, since each of its divisors is tested \<open>> 0\<close> or is a constant or a
  length. \<open>Finite\<close> also holds rationals that are not binary64 values; the operations
  never produce one, and what is proved for all values holds for the binary64 ones.
\<close>

datatype double = NaN | PosInf | NegInf | Finite rat

text \<open>
  \<open>pow2 e\<close> is 2 to the power \<open>e\<close>, \<open>bit_length n\<close> the number of binary
  digits of a positive integer, and \<open>ilog2 x\<close> the exponent of a positive rational:
  the \<open>e\<close> with \<open>pow2 e \<le> x < pow2 (e + 1)\<close>.
\<close>

definition pow2 :: "int \<Rightarrow> rat" where
  "pow2 e = (if 0 \<le> e then 2 ^ nat e else 1 / 2 ^ nat (- e))"

function bit_length :: "int \<Rightarrow> int" where
  "bit_length n = (if n \<le> 0 then 0 else 1 + bit_length (n div 2))"
  by pat_completeness auto
termination
  by (relation "measure nat") auto

declare bit_length.simps [simp del]

definition ilog2 :: "rat \<Rightarrow> int" where
  "ilog2 x =
     (let k = bit_length (fst (quotient_of x)) - bit_length (snd (quotient_of x))
      in if pow2 k \<le> x then k else k - 1)"

text \<open>Rounding to the nearest integer, a tie going to the even one.\<close>

definition round_half_even :: "rat \<Rightarrow> int" where
  "round_half_even x =
     (let f = \<lfloor>x\<rfloor>; r = x - of_int f
      in if r < 1 / 2 then f
         else if 1 / 2 < r then f + 1
         else if even f then f else f + 1)"

text \<open>
  The binary64 value of an exact result: 53 significant bits above the exponent of
  \<open>x\<close>, the exponent being at least \<open>-1022\<close> (below it the spacing stays
  \<open>pow2 (-1074)\<close>, the subnormal numbers), and an infinity when the rounded value
  reaches \<open>pow2 1024\<close>. It is also the value of a decimal literal: \<open>30.4\<close> is
  \<open>round64 (304 / 10)\<close>.
\<close>

definition round64 :: "rat \<Rightarrow> double" where
  "round64 x =
     (if x = 0 then Finite 0
      else let e = max (ilog2 \<bar>x\<bar>) (- 1022);
               ulp = pow2 (e - 52);
               y = of_int (round_half_even (x / ulp)) * ulp
           in if pow2 1024 \<le> \<bar>y\<bar> then (if 0 < x then PosInf else NegInf)
              else Finite y)"

text \<open>
  The arithmetic operators \<open>+\<close>, \<open>-\<close>, \<open>*\<close>, \<open>/\<close> and the comparisons
  \<open><\<close>, \<open>==\<close>, \<open><=\<close>. A quotient by zero takes the zero as positive.
\<close>

fun fneg :: "double \<Rightarrow> double" where
  "fneg NaN = NaN"
| "fneg PosInf = NegInf"
| "fneg NegInf = PosInf"
| "fneg (Finite a) = Finite (- a)"

fun fadd :: "double \<Rightarrow> double \<Rightarrow> double" where
  "fadd NaN b = NaN"
| "fadd a NaN = NaN"
| "fadd (Finite a) (Finite b) = round64 (a + b)"
| "fadd PosInf NegInf = NaN"
| "fadd NegInf PosInf = NaN"
| "fadd PosInf b = PosInf"
| "fadd NegInf b = NegInf"
| "fadd a PosInf = PosInf"
| "fadd a NegInf = NegInf"

definition fsub :: "double \<Rightarrow> double \<Rightarrow> double" where
  "fsub a b = fadd a (fneg b)"

fun fmul :: "double \<Rightarrow> double \<Rightarrow> double" where
  "fmul NaN b = NaN"
| "fmul a NaN = NaN"
| "fmul (Finite a) (Finite b) = round64 (a * b)"
| "fmul (Finite a) PosInf = (if a = 0 then NaN else if 0 < a then PosInf else NegInf)"
| "fmul (Finite a) NegInf = (if a = 0 then NaN else if 0 < a then NegInf else PosInf)"
| "fmul PosInf (Finite b) = (if b = 0 then NaN else if 0 < b then PosInf else NegInf)"
| "fmul NegInf (Finite b) = (if b = 0 then NaN else if 0 < b then NegInf else PosInf)"
| "fmul PosInf PosInf = PosInf"
| "fmul PosInf NegInf = NegInf"
| "fmul NegInf PosInf = NegInf"
| "fmul NegInf NegInf = PosInf"

fun fdiv :: "double \<Rightarrow> double \<Rightarrow> double" where
  "fdiv NaN b = NaN"
| "fdiv a NaN = NaN"
| "fdiv (Finite a) (Finite b) =
     (if b = 0 then (if a = 0 then NaN else if 0 < a then PosInf else NegInf)
      else round64 (a / b))"
| "fdiv (Finite a) PosInf = Finite 0"
| "fdiv (Finite a) NegInf = Finite 0"
| "fdiv PosInf (Finite b) = (if 0 \<le> b then PosInf else NegInf)"
| "fdiv NegInf (Finite b) = (if 0 \<le> b then NegInf else PosInf)"
| "fdiv a b = NaN"

fun flt :: "double \<Rightarrow> double \<Rightarrow> bool" where
  "flt NaN b = False"
| "flt a NaN = False"
| "flt (Finite a) (Finite b) = (a < b)"
| "flt (Finite a) PosInf = True"
| "flt (Finite a) NegInf = False"
| "flt PosInf b = False"
| "flt NegInf NegInf = False"
| "flt NegInf b = True"



fun feq :: "double \<Rightarrow> double \<Rightarrow> bool" where
  "feq NaN b = False"
| "feq a NaN = False"
| "feq a b = (a = b)"

definition fle :: "double \<Rightarrow> double \<Rightarrow> bool" where
  "fle a b = (flt a b \<or> feq a b)"

text \<open>
  \<open>Math.max\<close>, \<open>Math.min\<close> and \<open>Math.ceil\<close>, \<open>Number.isFinite\<close>, and
  the truth value of a number in \<open>a || b\<close> (0 and NaN are falsy).
\<close>

definition Math_max64 :: "double \<Rightarrow> double \<Rightarrow> double" where
  "Math_max64 a b = (if a = NaN \<or> b = NaN then NaN else if flt a b then b else a)"

definition Math_min64 :: "double \<Rightarrow> double \<Rightarrow> double" where
  "Math_min64 a b = (if a = NaN \<or> b = NaN then NaN else if flt b a then b else a)"

fun Math_ceil64 :: "double \<Rightarrow> double" where
  "Math_ceil64 (Finite a) = Finite (of_int \<lceil>a\<rceil>)"
| "Math_ceil64 a = a"

fun isFinite64 :: "double \<Rightarrow> bool" where
  "isFinite64 (Finite a) = True"
| "isFinite64 a = False"

definition truthy :: "double \<Rightarrow> bool" where
  "truthy a = (a \<noteq> NaN \<and> a \<noteq> Finite 0)"

section \<open>Planning calculator over binary64 numbers (calculations.ts, calculateItemPlanning)\<close>

text \<open>
  The same function, statement for statement, with the operations of the language on
  binary64 values. The filters of the lots by product, status and expiry and the month
  labels involve no arithmetic and are shared with the first embedding.
\<close>

fun expiresSoon64 :: "double Settings \<Rightarrow> Date \<Rightarrow> double InventoryLot \<Rightarrow> bool" where
  "expiresSoon64 settings currentDate l =
     (case expiryDate l of
        None \<Rightarrow> False
      | Some Invalid_Date \<Rightarrow> False
      | Some (Time_Value t) \<Rightarrow>
          (let diff = fdiv (fsub (Finite (of_int t)) (Finite (of_int (getTime currentDate))))
                        (fmul (fmul (Finite 1000) (Finite 3600)) (Finite 24))
           in fle diff (expiryWarningDays settings) \<and> flt (Finite 0) diff))"

definition expiringSoon64 ::
  "double Item \<Rightarrow> double InventoryLot list \<Rightarrow> double Settings \<Rightarrow> Date \<Rightarrow> double InventoryLot list" where
  "expiringSoon64 itm lts settings currentDate =
     filter (expiresSoon64 settings currentDate) (activeLots itm lts)"

definition weightedStep64 ::
  "double Settings \<Rightarrow> double SalesHistory list \<Rightarrow> double \<times> double \<Rightarrow> nat \<times> string
     \<Rightarrow> double \<times> double" where
  "weightedStep64 settings isales acc im =
     (let monthSale = (case find (\<lambda>s. month s = snd im) isales of
                         None \<Rightarrow> Finite 0
                       | Some s \<Rightarrow> if truthy (quantitySold s) then quantitySold s else Finite 0);
          weight = (if fst im < length (weights settings) \<and> truthy (weights settings ! fst im)
                    then weights settings ! fst im else Finite 0)
      in (fadd (fst acc) (fmul monthSale weight), fadd (snd acc) weight))"

definition forecast64 :: "double Settings \<Rightarrow> double SalesHistory list \<Rightarrow> Date \<Rightarrow> double" where
  "forecast64 settings isales currentDate =
     (case forecastMethod settings of
        SimpleAverage6Months \<Rightarrow>
          (let totalSold = foldl (\<lambda>sum s. fadd sum (quantitySold s)) (Finite 0) isales
           in if length isales > 0
              then fdiv totalSold (Finite (of_nat (max (length isales) 1))) else Finite 0)
      | WeightedAverage \<Rightarrow>
          (let ws = foldl (weightedStep64 settings isales) (Finite 0, Finite 0)
                      (enumerate 0 (last6Months currentDate))
           in if flt (Finite 0) (snd ws) then fdiv (fst ws) (snd ws) else Finite 0))"

definition calculateItemPlanning64 ::
  "double Item \<Rightarrow> double InventoryLot list \<Rightarrow> double SalesHistory list \<Rightarrow> double Settings
     \<Rightarrow> Date \<Rightarrow> double ItemPlanningView" where
  "calculateItemPlanning64 itm lts sls settings currentDate =
     (let availableStock' =
            foldl (\<lambda>sum lot. fadd sum (quantityRemaining lot)) (Finite 0)
              (nonExpiredLots itm lts currentDate);
          avgMonthlyDemand' = forecast64 settings (itemSales itm sls) currentDate;
          dailyDemand' = fdiv avgMonthlyDemand' (round64 (304 / 10));
          safetyStock' = fmul dailyDemand' (safetyStockDays settings);
          leadTime = (if truthy (leadTimeDays itm) then leadTimeDays itm
                      else defaultLeadTimeDays settings);
          reorderPoint' = fadd (fmul dailyDemand' leadTime) safetyStock';
          suggested0 =
            Math_max64 (Finite 0)
              (fsub (fadd reorderPoint' (fmul dailyDemand' (reviewPeriodDays settings)))
                 availableStock');
          shelfLife = (case shelfLifeDays itm of None \<Rightarrow> Finite 365 | Some d \<Rightarrow> d);
          maxFreshStock = fmul (fmul dailyDemand' shelfLife) (round64 (8 / 10));
          capQty = Math_max64 (Finite 0) (fsub maxFreshStock availableStock');
          preCapSuggested = suggested0;
          suggested1 = Math_min64 suggested0 capQty;
          freshnessCapApplied' = flt suggested1 preCapSuggested;
          suggested2 = (if flt (Finite 0) suggested1 \<and> flt suggested1 (moq itm)
                        then moq itm else suggested1);
          suggested3 = (if flt (Finite 0) suggested2 \<and> flt (Finite 0) (packSize itm)
                        then fmul (Math_ceil64 (fdiv suggested2 (packSize itm))) (packSize itm)
                        else suggested2);
          daysCover' = (if flt (Finite 0) dailyDemand' then fdiv availableStock' dailyDemand'
                        else Finite 999);
          projected = (if flt (Finite 0) dailyDemand'
                       then fdiv (fadd availableStock' suggested3) dailyDemand'
                       else Finite 999);
          lowStockFlag' =
            (case lowStockRule settings of
               BelowDaysCover \<Rightarrow> flt daysCover' (lowStockDaysCoverThreshold settings)
             | BelowReorderPoint \<Rightarrow> flt availableStock' reorderPoint')
      in \<lparr> item = itm,
           lots = activeLots itm lts,
           sales = itemSales itm sls,
           availableStock = availableStock',
           avgMonthlyDemand = avgMonthlyDemand',
           dailyDemand = dailyDemand',
           safetyStock = safetyStock',
           reorderPoint = reorderPoint',
           suggestedOrderQty = suggested3,
           freshnessCapApplied = freshnessCapApplied',
           freshnessCapQty = capQty,
           projectedDaysCoverAfterOrder = projected,
           daysCover = daysCover',
           lowStockFlag = lowStockFlag',
           expiringSoonLots = expiringSoon64 itm lts settings currentDate \<rparr>)"

section \<open>Auxiliary notions for the proofs\<close>

text \<open>
  The three last assignments to \<open>suggested\<close>, each as a function of the value before
  it: the freshness cap (read off the fields of the view), the raise to the minimum order
  quantity, and the rounding to whole packs.
\<close>

definition cappedQty :: "real Item \<Rightarrow> real Settings \<Rightarrow> real ItemPlanningView \<Rightarrow> real" where
  "cappedQty itm settings v =
     min (max 0 (reorderPoint v + dailyDemand v * reviewPeriodDays settings - availableStock v))
         (max 0 (dailyDemand v * (case shelfLifeDays itm of None \<Rightarrow> 365 | Some d \<Rightarrow> d) * (8 / 10)
                 - availableStock v))"

definition moqRaise :: "real \<Rightarrow> real \<Rightarrow> real" where
  "moqRaise m s = (if s > 0 \<and> s < m then m else s)"

definition packRound :: "real \<Rightarrow> real \<Rightarrow> real" where
  "packRound p s = (if s > 0 \<and> p > 0 then Math_ceil (s / p) * p else s)"

text \<open>The same three assignments over binary64 numbers.\<close>

definition cappedQty64 :: "double Item \<Rightarrow> double Settings \<Rightarrow> double ItemPlanningView \<Rightarrow> double" where
  "cappedQty64 itm settings v =
     Math_min64
       (Math_max64 (Finite 0)
          (fsub (fadd (reorderPoint v) (fmul (dailyDemand v) (reviewPeriodDays settings)))
             (availableStock v)))
       (Math_max64 (Finite 0)
          (fsub (fmul (fmul (dailyDemand v)
                         (case shelfLifeDays itm of None \<Rightarrow> Finite 365 | Some d \<Rightarrow> d))
                   (round64 (8 / 10)))
             (availableStock v)))"

definition moqRaise64 :: "double \<Rightarrow> double \<Rightarrow> double" where
  "moqRaise64 m s = (if flt (Finite 0) s \<and> flt s m then m else s)"

definition packRound64 :: "double \<Rightarrow> double \<Rightarrow> double" where
  "packRound64 p s =
     (if flt (Finite 0) s \<and> flt (Finite 0) p then fmul (Math_ceil64 (fdiv s p)) p else s)"

text \<open>
  The two conditions of the detector, for either alert type: the view qualifies for an
  alert of the type, and some existing alert satisfies the predicate given to
  \<open>find\<close>.
\<close>

definition qualifies :: "AlertType \<Rightarrow> real ItemPlanningView \<Rightarrow> bool" where
  "qualifies ty view =
     (case ty of LowStock \<Rightarrow> lowStockFlag view | Expiry \<Rightarrow> length (expiringSoonLots view) > 0)"

definition suppressed ::
  "InventoryAlert list \<Rightarrow> real Settings \<Rightarrow> int \<Rightarrow> string \<Rightarrow> AlertType \<Rightarrow> bool" where
  "suppressed existingAlerts settings now iid ty =
     (\<exists>a \<in> set existingAlerts. recentAlert settings now iid ty a)"

section \<open>Example data\<close>

definition ex_item :: "real Item" where
  "ex_item = \<lparr> item_id = ''p1'', item_name = ''Feed'', packSize = 5, leadTimeDays = 0,
               moq = 25, shelfLifeDays = None \<rparr>"

definition ex_settings :: "real Settings" where
  "ex_settings = \<lparr> defaultLeadTimeDays = 14, safetyStockDays = 7, reviewPeriodDays = 7,
                   lowStockDaysCoverThreshold = 21, expiryWarningDays = 60,
                   notificationCooldownHours = 24, forecastMethod = SimpleAverage6Months,
                   weights = [1, 1, 1, 1, 1, 5], lowStockRule = BelowDaysCover \<rparr>"

text \<open>3 November 2025, 00:00 UTC.\<close>

definition ex_date :: Date where
  "ex_date = \<lparr> getTime = 1762128000000, getFullYear = 2025, getMonth = 10 \<rparr>"

definition ex_sales :: "real SalesHistory list" where
  "ex_sales = [\<lparr> sale_id = ''s1'', sale_itemId = ''p1'', month = ''2025-10'',
                  quantitySold = 304 \<rparr>]"

definition ex_lots :: "real InventoryLot list" where
  "ex_lots = [\<lparr> lot_id = ''l1'', lot_itemId = ''p1'', lotNumber = ''L1'', expiryDate = None,
                 quantityRemaining = 10, lot_status = Available \<rparr>]"

definition ex_lots_999 :: "real InventoryLot list" where
  "ex_lots_999 = [\<lparr> lot_id = ''l1'', lot_itemId = ''p1'', lotNumber = ''L1'', expiryDate = None,
                     quantityRemaining = 9990, lot_status = Available \<rparr>]"

text \<open>
  A lot that expires ten days after \<open>ex_date\<close>, one that expired the day before, one
  without a date, and a damaged one.
\<close>

definition ex_lot_soon :: "real InventoryLot" where
  "ex_lot_soon = \<lparr> lot_id = ''l2'', lot_itemId = ''p1'', lotNumber = ''L2'',
                   expiryDate = Some (Time_Value 1762992000000),
                   quantityRemaining = 5, lot_status = Available \<rparr>"

definition ex_lots_expiry :: "real InventoryLot list" where
  "ex_lots_expiry =
     [\<lparr> lot_id = ''l1'', lot_itemId = ''p1'', lotNumber = ''L1'', expiryDate = None,
         quantityRemaining = 10, lot_status = Available \<rparr>,
      ex_lot_soon,
      \<lparr> lot_id = ''l3'', lot_itemId = ''p1'', lotNumber = ''L3'',
         expiryDate = Some (Time_Value 1762041600000),
         quantityRemaining = 7, lot_status = Available \<rparr>,
      \<lparr> lot_id = ''l4'', lot_itemId = ''p1'', lotNumber = ''L4'',
         expiryDate = Some (Time_Value 1762992000000),
         quantityRemaining = 3, lot_status = Damaged \<rparr>]"

text \<open>
  Planning views of the example product, and alerts about it: a low-stock alert sent 23
  hours before \<open>ex_date\<close>, an expiry alert sent 25 hours before it, and a low-stock
  alert created one hour before it and dismissed without having been sent.
\<close>

definition ex_view :: "real ItemPlanningView" where
  "ex_view = calculateItemPlanning ex_item ex_lots ex_sales ex_settings ex_date"

definition ex_view_expiry :: "real ItemPlanningView" where
  "ex_view_expiry = calculateItemPlanning ex_item ex_lots_expiry ex_sales ex_settings ex_date"

definition ex_sent :: InventoryAlert where
  "ex_sent = \<lparr> alert_id = ''lowStock_p1_1762041600000'',
               createdAt = Some (Time_Value 1762041600000),
               alert_itemId = ''p1'', alert_type = LowStock,
               message = LowStockMessage ''Feed'' 10 1,
               alert_status = Sent, lastSentAt = Some (Time_Value 1762045200000) \<rparr>"

definition ex_sent_expiry :: InventoryAlert where
  "ex_sent_expiry = \<lparr> alert_id = ''expiry_p1_1762034400000'',
               createdAt = Some (Time_Value 1762034400000),
               alert_itemId = ''p1'', alert_type = Expiry,
               message = ExpiryMessage ''Feed'' [(''L2'', Some (Time_Value 1762992000000))],
               alert_status = Sent, lastSentAt = Some (Time_Value 1762038000000) \<rparr>"

definition ex_dismissed :: InventoryAlert where
  "ex_dismissed = \<lparr> alert_id = ''lowStock_p1_1762124400000'',
               createdAt = Some (Time_Value 1762124400000),
               alert_itemId = ''p1'', alert_type = LowStock,
               message = LowStockMessage ''Feed'' 10 1,
               alert_status = Dismissed, lastSentAt = None \<rparr>"

text \<open>
  Binary64 inputs: a product with a minimum order quantity of 11.9 and a pack size of
  0.7, a lot of 275, one sale of 304; and two sales of \<open>2 ^ 1023\<close>
  (8.98846567431158e307) each.
\<close>

definition d_item :: "double Item" where
  "d_item = \<lparr> item_id = ''p1'', item_name = ''Feed'', packSize = round64 (7 / 10),
              leadTimeDays = Finite 0, moq = round64 (119 / 10), shelfLifeDays = None \<rparr>"

definition d_settings :: "double Settings" where
  "d_settings = \<lparr> defaultLeadTimeDays = Finite 14, safetyStockDays = Finite 7,
                  reviewPeriodDays = Finite 7, lowStockDaysCoverThreshold = Finite 21,
                  expiryWarningDays = Finite 60, notificationCooldownHours = Finite 24,
                  forecastMethod = SimpleAverage6Months,
                  weights = [Finite 1, Finite 1, Finite 1, Finite 1, Finite 1, Finite 5],
                  lowStockRule = BelowDaysCover \<rparr>"

definition d_sales :: "double SalesHistory list" where
  "d_sales = [\<lparr> sale_id = ''s1'', sale_itemId = ''p1'', month = ''2025-10'',
                 quantitySold = Finite 304 \<rparr>]"

definition d_lots :: "double InventoryLot list" where
  "d_lots = [\<lparr> lot_id = ''l1'', lot_itemId = ''p1'', lotNumber = ''L1'', expiryDate = None,
                quantityRemaining = Finite 275, lot_status = Available \<rparr>]"

definition d_sales_huge :: "double SalesHistory list" where
  "d_sales_huge =
     [\<lparr> sale_id = ''s1'', sale_itemId = ''p1'', month = ''2025-09'',
         quantitySold = Finite (2 ^ 1023) \<rparr>,
      \<lparr> sale_id = ''s2'', sale_itemId = ''p1'', month = ''2025-10'',
         quantitySold = Finite (2 ^ 1023) \<rparr>]"

section \<open>The fields of the planning view\<close>

lemma dailyDemand_calc:
  "dailyDemand (calculateItemPlanning itm lts sls settings currentDate) =
     forecast settings (itemSales itm sls) currentDate / (304 / 10)"
  by (simp only: calculateItemPlanning_def Let_def ItemPlanningView.select_convs)

lemma avgMonthlyDemand_calc:
  "avgMonthlyDemand (calculateItemPlanning itm lts sls settings currentDate) =
     forecast settings (itemSales itm sls) currentDate"
  by (simp only: calculateItemPlanning_def Let_def ItemPlanningView.select_convs)

lemma availableStock_calc:
  "availableStock (calculateItemPlanning itm lts sls settings currentDate) =
     foldl (\<lambda>sum lot. sum + quantityRemaining lot) 0 (nonExpiredLots itm lts currentDate)"
  by (simp only: calculateItemPlanning_def Let_def ItemPlanningView.select_convs)

lemma daysCover_calc:
  "daysCover (calculateItemPlanning itm lts sls settings currentDate) =
     (if dailyDemand (calculateItemPlanning itm lts sls settings currentDate) > 0
      then availableStock (calculateItemPlanning itm lts sls settings currentDate) /
           dailyDemand (calculateItemPlanning itm lts sls settings currentDate)
      else 999)"
  by (simp only: calculateItemPlanning_def Let_def ItemPlanningView.select_convs)

lemma reorderPoint_calc:
  "reorderPoint (calculateItemPlanning itm lts sls settings currentDate) =
     dailyDemand (calculateItemPlanning itm lts sls settings currentDate) *
       (if leadTimeDays itm \<noteq> 0 then leadTimeDays itm else defaultLeadTimeDays settings) +
     dailyDemand (calculateItemPlanning itm lts sls settings currentDate) * safetyStockDays settings"
  by (simp only: calculateItemPlanning_def Let_def ItemPlanningView.select_convs)

lemma lowStockFlag_calc:
  "lowStockFlag (calculateItemPlanning itm lts sls settings currentDate) =
     (case lowStockRule settings of
        BelowDaysCover \<Rightarrow>
          daysCover (calculateItemPlanning itm lts sls settings currentDate)
            < lowStockDaysCoverThreshold settings
      | BelowReorderPoint \<Rightarrow>
          availableStock (calculateItemPlanning itm lts sls settings currentDate)
            < reorderPoint (calculateItemPlanning itm lts sls settings currentDate))"
  by (simp only: calculateItemPlanning_def Let_def ItemPlanningView.select_convs)

lemma expiringSoonLots_calc:
  "expiringSoonLots (calculateItemPlanning itm lts sls settings currentDate) =
     expiringSoon itm lts settings currentDate"
  by (simp only: calculateItemPlanning_def Let_def ItemPlanningView.select_convs)

lemma item_calc: "item (calculateItemPlanning itm lts sls settings currentDate) = itm"
  by (simp only: calculateItemPlanning_def Let_def ItemPlanningView.select_convs)

lemma suggested_eq:
  "suggestedOrderQty (calculateItemPlanning itm lts sls settings currentDate) =
     packRound (packSize itm) (moqRaise (moq itm)
       (cappedQty itm settings (calculateItemPlanning itm lts sls settings currentDate)))"
  by (simp only: calculateItemPlanning_def Let_def packRound_def moqRaise_def cappedQty_def ItemPlanningView.select_convs)


lemmas ex_defs = ex_item_def ex_settings_def ex_date_def ex_sales_def ex_lots_def
  ex_lots_999_def ex_lots_expiry_def ex_lot_soon_def

lemmas calc_eval = calculateItemPlanning_def Let_def nonExpiredLots_def activeLots_def
  itemSales_def forecast_def Math_ceil_def expiringSoon_def

lemma ex_suggested:
  "suggestedOrderQty (calculateItemPlanning ex_item ex_lots ex_sales ex_settings ex_date) = 270"
  by (simp add: ex_defs calc_eval)

section \<open>The order quantity\<close>

lemma ceil_mult_ge: "0 < p \<Longrightarrow> s \<le> Math_ceil (s / p) * p" for p s :: real
proof -
  assume p: "0 < p"
  have "s / p \<le> of_int \<lceil>s / p\<rceil>" by (rule le_of_int_ceiling)
  then have "s \<le> of_int \<lceil>s / p\<rceil> * p" by (simp only: pos_divide_le_eq [OF p])
  then show ?thesis by (simp only: Math_ceil_def)
qed

lemma packRound_ge: "s \<le> packRound p s"
  by (simp add: packRound_def ceil_mult_ge)

lemma packRound_pos_iff: "0 < packRound p s \<longleftrightarrow> 0 < s"
  using packRound_ge [of s p] by (auto simp: packRound_def)

lemma moqRaise_ge: "s \<le> moqRaise m s"
  by (simp add: moqRaise_def)

lemma moqRaise_pos_iff: "0 < moqRaise m s \<longleftrightarrow> 0 < s"
  by (auto simp: moqRaise_def)

lemma moqRaise_ge_moq: "0 < s \<Longrightarrow> m \<le> moqRaise m s"
  by (simp add: moqRaise_def)

lemma cappedQty_nonneg: "0 \<le> cappedQty itm settings v"
  by (simp add: cappedQty_def)


text \<open>
  Over exact numbers the suggested order quantity is at least 0, and, when positive, at
  least the minimum order quantity and a whole number of packs.
\<close>

lemma exact_suggestedOrderQty_nonneg:
  "0 \<le> suggestedOrderQty (calculateItemPlanning itm lts sls settings currentDate)"
proof -
  let ?v = "calculateItemPlanning itm lts sls settings currentDate"
  have "0 \<le> cappedQty itm settings ?v" by (rule cappedQty_nonneg)
  also have "\<dots> \<le> moqRaise (moq itm) (cappedQty itm settings ?v)" by (rule moqRaise_ge)
  also have "\<dots> \<le> packRound (packSize itm) (moqRaise (moq itm) (cappedQty itm settings ?v))"
    by (rule packRound_ge)
  finally show ?thesis by (simp only: suggested_eq)
qed

lemma exact_suggestedOrderQty_moq_pack:
  "0 < suggestedOrderQty (calculateItemPlanning itm lts sls settings currentDate) \<Longrightarrow>
   moq itm \<le> suggestedOrderQty (calculateItemPlanning itm lts sls settings currentDate) \<and>
   (0 < packSize itm \<longrightarrow>
      (\<exists>k::int. suggestedOrderQty (calculateItemPlanning itm lts sls settings currentDate)
                   = of_int k * packSize itm))"
proof -
  let ?v = "calculateItemPlanning itm lts sls settings currentDate"
  let ?c = "cappedQty itm settings ?v"
  let ?m = "moqRaise (moq itm) ?c"
  assume "0 < suggestedOrderQty ?v"
  then have pm: "0 < ?m" by (simp only: suggested_eq packRound_pos_iff)
  then have pc: "0 < ?c" by (simp only: moqRaise_pos_iff)
  have "moq itm \<le> ?m" using pc by (rule moqRaise_ge_moq)
  also have "\<dots> \<le> packRound (packSize itm) ?m" by (rule packRound_ge)
  finally have ge: "moq itm \<le> suggestedOrderQty ?v" by (simp only: suggested_eq)
  have "0 < packSize itm \<longrightarrow> (\<exists>k::int. suggestedOrderQty ?v = of_int k * packSize itm)"
  proof
    assume "0 < packSize itm"
    then have "packRound (packSize itm) ?m = of_int \<lceil>?m / packSize itm\<rceil> * packSize itm"
      using pm by (simp add: packRound_def Math_ceil_def)
    then have "suggestedOrderQty ?v = of_int \<lceil>?m / packSize itm\<rceil> * packSize itm"
      by (simp only: suggested_eq)
    then show "\<exists>k::int. suggestedOrderQty ?v = of_int k * packSize itm" by (rule exI)
  qed
  with ge show ?thesis by (rule conjI)
qed

lemma moqRaise_zero: "moqRaise m 0 = 0" by (simp add: moqRaise_def)
lemma packRound_zero: "packRound p 0 = 0" by (simp add: packRound_def)

lemma cappedQty_zero_demand:
  "dailyDemand v = 0 \<Longrightarrow> reorderPoint v = 0 \<Longrightarrow> 0 \<le> availableStock v \<Longrightarrow> cappedQty itm settings v = 0"
  by (simp add: cappedQty_def)

text \<open>
  C10: zero demand never triggers an order. When the daily demand of the view is 0 and
  its available stock is not negative, the suggested order quantity is 0: neither the
  raise to the minimum order quantity nor the pack rounding applies.
\<close>

theorem zero_demand_no_order:
  "dailyDemand (calculateItemPlanning itm lts sls settings currentDate) = 0 \<Longrightarrow>
   0 \<le> availableStock (calculateItemPlanning itm lts sls settings currentDate) \<Longrightarrow>
   suggestedOrderQty (calculateItemPlanning itm lts sls settings currentDate) = 0"
proof -
  let ?v = "calculateItemPlanning itm lts sls settings currentDate"
  assume d: "dailyDemand ?v = 0" and a: "0 \<le> availableStock ?v"
  have r: "reorderPoint ?v = 0" by (simp add: reorderPoint_calc d)
  have "cappedQty itm settings ?v = 0" using d r a by (rule cappedQty_zero_demand)
  then show ?thesis by (simp add: suggested_eq moqRaise_zero packRound_zero)
qed

lemma ex_no_sales_demand:
  "dailyDemand (calculateItemPlanning ex_item [] [] ex_settings ex_date) = 0"
  by (simp add: ex_defs calc_eval)

lemma ex_no_lots_stock:
  "availableStock (calculateItemPlanning ex_item [] [] ex_settings ex_date) = 0"
  by (simp add: ex_defs calc_eval)

theorem zero_demand_no_order_witness:
  "dailyDemand (calculateItemPlanning ex_item [] [] ex_settings ex_date) = 0 \<and>
   availableStock (calculateItemPlanning ex_item [] [] ex_settings ex_date) = 0 \<and>
   0 < moq ex_item \<and>
   suggestedOrderQty (calculateItemPlanning ex_item [] [] ex_settings ex_date) = 0"
  using zero_demand_no_order [of ex_item "[]" "[]" ex_settings ex_date]
  by (simp add: ex_no_sales_demand ex_no_lots_stock) (simp add: ex_item_def)

section \<open>Cover and the low-stock flag\<close>




lemma weightedStep_no_sales: "fst (weightedStep settings [] acc im) = fst acc"
  by (simp add: weightedStep_def)

lemma foldl_weightedStep_no_sales:
  "fst (foldl (weightedStep settings []) acc xs) = fst acc"
  by (induction xs arbitrary: acc) (simp_all add: weightedStep_no_sales)

lemma forecast_no_sales: "forecast settings [] currentDate = 0"
  by (simp add: forecast_def Let_def foldl_weightedStep_no_sales split: ForecastMethod.split)

text \<open>
  C7, as the code has it: a product without sales records has an average monthly demand
  of 0, a daily demand of 0 and 999 days of cover, under either forecast method; under
  the rule \<open>belowDaysCover\<close> its low-stock flag is the comparison of 999 with the
  threshold, so it is false for every threshold up to 999 and true above.
\<close>

theorem no_sales_view:
  "itemSales itm sls = [] \<Longrightarrow>
   avgMonthlyDemand (calculateItemPlanning itm lts sls settings currentDate) = 0 \<and>
   dailyDemand (calculateItemPlanning itm lts sls settings currentDate) = 0 \<and>
   daysCover (calculateItemPlanning itm lts sls settings currentDate) = 999 \<and>
   (lowStockRule settings = BelowDaysCover \<longrightarrow>
      lowStockFlag (calculateItemPlanning itm lts sls settings currentDate) =
        (999 < lowStockDaysCoverThreshold settings))"
proof -
  let ?v = "calculateItemPlanning itm lts sls settings currentDate"
  assume "itemSales itm sls = []"
  then have a: "avgMonthlyDemand ?v = 0" by (simp add: avgMonthlyDemand_calc forecast_no_sales)
  then have d: "dailyDemand ?v = 0" by (simp add: dailyDemand_calc avgMonthlyDemand_calc)
  then have c: "daysCover ?v = 999" by (simp add: daysCover_calc)
  then have "lowStockRule settings = BelowDaysCover \<longrightarrow>
      lowStockFlag ?v = (999 < lowStockDaysCoverThreshold settings)"
    by (simp add: lowStockFlag_calc)
  with a d c show ?thesis by simp
qed


text \<open>With a threshold of 1000 the flag is raised without any sales record.\<close>

theorem no_sales_lowStock_counterexample:
  "itemSales ex_item [] = [] \<and>
   lowStockRule (ex_settings\<lparr>lowStockDaysCoverThreshold := 1000\<rparr>) = BelowDaysCover \<and>
   lowStockFlag (calculateItemPlanning ex_item ex_lots []
                   (ex_settings\<lparr>lowStockDaysCoverThreshold := 1000\<rparr>) ex_date)"
  by (simp add: ex_defs calc_eval)

theorem no_sales_view_witness:
  "itemSales ex_item [] = [] \<and>
   avgMonthlyDemand (calculateItemPlanning ex_item ex_lots [] ex_settings ex_date) = 0 \<and>
   dailyDemand (calculateItemPlanning ex_item ex_lots [] ex_settings ex_date) = 0 \<and>
   daysCover (calculateItemPlanning ex_item ex_lots [] ex_settings ex_date) = 999 \<and>
   lowStockRule ex_settings = BelowDaysCover \<and>
   \<not> lowStockFlag (calculateItemPlanning ex_item ex_lots [] ex_settings ex_date)"
proof -
  have e: "itemSales ex_item [] = []" by (simp add: itemSales_def)
  have r: "lowStockRule ex_settings = BelowDaysCover" by (simp add: ex_settings_def)
  have t: "\<not> 999 < lowStockDaysCoverThreshold ex_settings" by (simp add: ex_settings_def)
  from no_sales_view [OF e, of ex_lots ex_settings ex_date] e r t show ?thesis by simp
qed

section \<open>Lots\<close>

lemma expiresSoon_after:
  "expiresSoon settings currentDate l \<Longrightarrow>
   \<exists>t. expiryDate l = Some (Time_Value t) \<and> getTime currentDate < t"
  by (auto simp: Let_def split: option.splits js_date.splits)

lemma expiresSoon_nonExpired:
  "expiresSoon settings currentDate l \<Longrightarrow>
   (case expiryDate l of None \<Rightarrow> True | Some d \<Rightarrow> date_after d currentDate)"
  using expiresSoon_after [of settings currentDate l] by auto

lemma expiringSoon_filter_nonExpired:
  "expiringSoon itm lts settings currentDate =
     filter (expiresSoon settings currentDate) (nonExpiredLots itm lts currentDate)"
proof -
  have "filter (expiresSoon settings currentDate) (nonExpiredLots itm lts currentDate) =
        filter (\<lambda>l. (case expiryDate l of None \<Rightarrow> True | Some d \<Rightarrow> date_after d currentDate)
                     \<and> expiresSoon settings currentDate l) (activeLots itm lts)"
    by (simp only: nonExpiredLots_def filter_filter)
  also have "\<dots> = filter (expiresSoon settings currentDate) (activeLots itm lts)"
    by (rule filter_cong [OF refl]) (use expiresSoon_nonExpired in blast)
  finally show ?thesis by (simp only: expiringSoon_def)
qed

lemma foldl_add_sum_list:
  "foldl (\<lambda>sum x. sum + f x) a xs = a + sum_list (map f xs)" for a :: real
  by (induction xs arbitrary: a) simp_all

text \<open>
  C9: every lot among the expiring-soon lots of the view is available and has an expiry
  date strictly after the current date, so it is one of the non-expired lots; the
  expiring-soon lots are the non-expired lots filtered, and the available stock is the sum
  of the remaining quantities over the non-expired lots.
\<close>

theorem expiringSoonLots_nonExpired:
  "(\<forall>l \<in> set (expiringSoonLots (calculateItemPlanning itm lts sls settings currentDate)).
      lot_status l = Available \<and>
      (\<exists>t. expiryDate l = Some (Time_Value t) \<and> getTime currentDate < t) \<and>
      l \<in> set (nonExpiredLots itm lts currentDate)) \<and>
   expiringSoonLots (calculateItemPlanning itm lts sls settings currentDate) =
     filter (expiresSoon settings currentDate) (nonExpiredLots itm lts currentDate) \<and>
   availableStock (calculateItemPlanning itm lts sls settings currentDate) =
     sum_list (map quantityRemaining (nonExpiredLots itm lts currentDate))"
proof -
  let ?v = "calculateItemPlanning itm lts sls settings currentDate"
  have f: "expiringSoonLots ?v =
             filter (expiresSoon settings currentDate) (nonExpiredLots itm lts currentDate)"
    by (simp only: expiringSoonLots_calc expiringSoon_filter_nonExpired)
  have s: "availableStock ?v = sum_list (map quantityRemaining (nonExpiredLots itm lts currentDate))"
    by (simp add: availableStock_calc foldl_add_sum_list)
  have "\<forall>l \<in> set (expiringSoonLots ?v).
      lot_status l = Available \<and>
      (\<exists>t. expiryDate l = Some (Time_Value t) \<and> getTime currentDate < t) \<and>
      l \<in> set (nonExpiredLots itm lts currentDate)"
  proof
    fix l assume "l \<in> set (expiringSoonLots ?v)"
    then have n: "l \<in> set (nonExpiredLots itm lts currentDate)"
      and e: "expiresSoon settings currentDate l"
      by (simp_all only: f set_filter mem_Collect_eq)
    from n have "lot_status l = Available" by (simp add: nonExpiredLots_def activeLots_def)
    with n expiresSoon_after [OF e]
    show "lot_status l = Available \<and>
      (\<exists>t. expiryDate l = Some (Time_Value t) \<and> getTime currentDate < t) \<and>
      l \<in> set (nonExpiredLots itm lts currentDate)" by blast
  qed
  with f s show ?thesis by blast
qed

theorem expiringSoonLots_nonExpired_witness:
  "ex_lot_soon \<in> set (expiringSoonLots
      (calculateItemPlanning ex_item ex_lots_expiry ex_sales ex_settings ex_date)) \<and>
   lot_status ex_lot_soon = Available \<and>
   expiryDate ex_lot_soon = Some (Time_Value 1762992000000) \<and>
   getTime ex_date < 1762992000000 \<and>
   ex_lot_soon \<in> set (nonExpiredLots ex_item ex_lots_expiry ex_date) \<and>
   availableStock (calculateItemPlanning ex_item ex_lots_expiry ex_sales ex_settings ex_date) = 15"
proof -
  have m: "ex_lot_soon \<in> set (expiringSoonLots
      (calculateItemPlanning ex_item ex_lots_expiry ex_sales ex_settings ex_date))"
    by (simp add: expiringSoonLots_calc expiringSoon_def activeLots_def ex_defs)
  have n: "nonExpiredLots ex_item ex_lots_expiry ex_date =
      [\<lparr> lot_id = ''l1'', lot_itemId = ''p1'', lotNumber = ''L1'', expiryDate = None,
          quantityRemaining = 10, lot_status = Available \<rparr>, ex_lot_soon]"
    by (simp add: nonExpiredLots_def activeLots_def ex_defs)
  from expiringSoonLots_nonExpired [of ex_item ex_lots_expiry ex_sales ex_settings ex_date] m
  show ?thesis by (simp add: n) (simp add: ex_defs)
qed

section \<open>Monotonicity of the freshness cap\<close>













section \<open>The alert detector\<close>

lemma find_recent_None:
  "find (recentAlert settings now iid ty) existingAlerts = None \<longleftrightarrow>
     \<not> suppressed existingAlerts settings now iid ty"
  by (auto simp: find_None_iff suppressed_def)

lemma lowStockCheck_Nil:
  "lowStockCheck view existingAlerts settings now = [] \<longleftrightarrow>
     \<not> (qualifies LowStock view \<and>
        \<not> suppressed existingAlerts settings now (item_id (item view)) LowStock)"
  by (simp add: lowStockCheck_def qualifies_def find_recent_None [symmetric] split: option.split)

lemma expiryCheck_Nil:
  "expiryCheck view existingAlerts settings now = [] \<longleftrightarrow>
     \<not> (qualifies Expiry view \<and>
        \<not> suppressed existingAlerts settings now (item_id (item view)) Expiry)"
  by (simp add: expiryCheck_def qualifies_def find_recent_None [symmetric] split: option.split)

lemma detectAlerts_Nil:
  "detectAlerts views existingAlerts settings now = [] \<longleftrightarrow>
     (\<forall>view \<in> set views. \<forall>ty.
        qualifies ty view \<longrightarrow> suppressed existingAlerts settings now (item_id (item view)) ty)"
proof -
  have "(\<forall>ty. P ty) \<longleftrightarrow> P LowStock \<and> P Expiry" for P
    by (metis AlertType.exhaust)
  then show ?thesis
    by (auto simp: detectAlerts_def lowStockCheck_Nil expiryCheck_Nil)
qed

lemma lowStockCheck_mem:
  "n \<in> set (lowStockCheck view existingAlerts settings now) \<longleftrightarrow>
     qualifies LowStock view \<and>
     \<not> suppressed existingAlerts settings now (item_id (item view)) LowStock \<and>
     n = \<lparr> alert_id = ''lowStock_'' @ item_id (item view) @ ''_'' @ show_int now,
           createdAt = Some (Time_Value now),
           alert_itemId = item_id (item view),
           alert_type = LowStock,
           message = LowStockMessage (item_name (item view)) (availableStock view)
                       (Math_round (daysCover view)),
           alert_status = Pending,
           lastSentAt = None \<rparr>"
  by (auto simp: lowStockCheck_def qualifies_def find_recent_None [symmetric] split: option.split)

lemma expiryCheck_mem:
  "n \<in> set (expiryCheck view existingAlerts settings now) \<longleftrightarrow>
     qualifies Expiry view \<and>
     \<not> suppressed existingAlerts settings now (item_id (item view)) Expiry \<and>
     n = \<lparr> alert_id = ''expiry_'' @ item_id (item view) @ ''_'' @ show_int now,
           createdAt = Some (Time_Value now),
           alert_itemId = item_id (item view),
           alert_type = Expiry,
           message = ExpiryMessage (item_name (item view))
                       (map (\<lambda>l. (lotNumber l, expiryDate l)) (expiringSoonLots view)),
           alert_status = Pending,
           lastSentAt = None \<rparr>"
  by (auto simp: expiryCheck_def qualifies_def find_recent_None [symmetric] split: option.split)


lemma detectAlerts_emits:
  assumes "view \<in> set views" and "qualifies ty view"
    and "\<not> suppressed existingAlerts settings now (item_id (item view)) ty"
  shows "\<exists>n \<in> set (detectAlerts views existingAlerts settings now).
           alert_itemId n = item_id (item view) \<and> alert_type n = ty \<and>
           alert_status n = Pending \<and> createdAt n = Some (Time_Value now)"
proof (cases ty)
  case LowStock
  let ?n = "\<lparr> alert_id = ''lowStock_'' @ item_id (item view) @ ''_'' @ show_int now,
           createdAt = Some (Time_Value now),
           alert_itemId = item_id (item view),
           alert_type = LowStock,
           message = LowStockMessage (item_name (item view)) (availableStock view)
                       (Math_round (daysCover view)),
           alert_status = Pending,
           lastSentAt = None \<rparr>"
  have "?n \<in> set (lowStockCheck view existingAlerts settings now)"
    using assms(2,3) LowStock by (simp add: lowStockCheck_mem)
  then have "?n \<in> set (detectAlerts views existingAlerts settings now)"
    using assms(1) by (auto simp: detectAlerts_def)
  then show ?thesis using LowStock by (intro bexI [of _ ?n]) simp_all
next
  case Expiry
  let ?n = "\<lparr> alert_id = ''expiry_'' @ item_id (item view) @ ''_'' @ show_int now,
           createdAt = Some (Time_Value now),
           alert_itemId = item_id (item view),
           alert_type = Expiry,
           message = ExpiryMessage (item_name (item view))
                       (map (\<lambda>l. (lotNumber l, expiryDate l)) (expiringSoonLots view)),
           alert_status = Pending,
           lastSentAt = None \<rparr>"
  have "?n \<in> set (expiryCheck view existingAlerts settings now)"
    using assms(2,3) Expiry by (simp add: expiryCheck_mem)
  then have "?n \<in> set (detectAlerts views existingAlerts settings now)"
    using assms(1) by (auto simp: detectAlerts_def)
  then show ?thesis using Expiry by (intro bexI [of _ ?n]) simp_all
qed


lemma ex_view_fields:
  "lowStockFlag ex_view" "expiringSoonLots ex_view = []" "item ex_view = ex_item"
  by (simp_all add: ex_view_def ex_defs calc_eval)

lemma ex_view_expiry_fields:
  "lowStockFlag ex_view_expiry" "expiringSoonLots ex_view_expiry = [ex_lot_soon]"
  "item ex_view_expiry = ex_item"
  by (simp_all add: ex_view_expiry_def ex_defs calc_eval)

lemmas detect_eval = detectAlerts_def lowStockCheck_def expiryCheck_def recentAlert_def
  withinCooldown_def

lemmas ex_alert_defs = ex_sent_def ex_sent_expiry_def ex_dismissed_def ex_item_def
  ex_settings_def

lemma ex_first_run:
  "map alert_type (detectAlerts [ex_view_expiry] [ex_sent] ex_settings 1762128000000) = [Expiry]"
  by (simp add: detect_eval ex_view_expiry_fields ex_alert_defs)

text \<open>
  C2, as the code has it: a second run on the same views and settings, whose existing
  alerts include those of the first run and the alerts the first run returned, returns
  the empty list, provided that every alert of the first run's existing alerts that was
  within its cooldown at the first run is pending or still within its cooldown at the
  second run. This is so when both runs read the same time.
\<close>

theorem detectAlerts_idempotent:
  assumes incl: "set existingAlerts \<union> set (detectAlerts views existingAlerts settings now1)
                   \<subseteq> set existingAlerts2"
    and keep: "\<forall>a \<in> set existingAlerts.
                 withinCooldown settings now1 (lastSentAt a) \<longrightarrow>
                 alert_status a = Pending \<or> withinCooldown settings now2 (lastSentAt a)"
  shows "detectAlerts views existingAlerts2 settings now2 = []"
proof -
  have "suppressed existingAlerts2 settings now2 (item_id (item view)) ty"
    if v: "view \<in> set views" and q: "qualifies ty view" for view ty
  proof (cases "suppressed existingAlerts settings now1 (item_id (item view)) ty")
    case True
    then obtain a where a: "a \<in> set existingAlerts"
      and r: "recentAlert settings now1 (item_id (item view)) ty a"
      by (auto simp: suppressed_def)
    from r keep a have "recentAlert settings now2 (item_id (item view)) ty a"
      by (auto simp: recentAlert_def)
    moreover from a incl have "a \<in> set existingAlerts2" by blast
    ultimately show ?thesis by (auto simp: suppressed_def)
  next
    case False
    with v q obtain n where n: "n \<in> set (detectAlerts views existingAlerts settings now1)"
      and p: "alert_itemId n = item_id (item view)" "alert_type n = ty" "alert_status n = Pending"
      using detectAlerts_emits [of view views ty existingAlerts settings now1] by blast
    from p have "recentAlert settings now2 (item_id (item view)) ty n"
      by (simp add: recentAlert_def)
    moreover from n incl have "n \<in> set existingAlerts2" by blast
    ultimately show ?thesis by (auto simp: suppressed_def)
  qed
  then show ?thesis by (simp add: detectAlerts_Nil)
qed

text \<open>
  At a later time the second run can emit again: an alert sent 23 hours before the first
  run suppresses it, and no longer suppresses a run two hours later.
\<close>

theorem detectAlerts_later_run_counterexample:
  "detectAlerts [ex_view] [ex_sent] ex_settings 1762128000000 = [] \<and>
   (1762128000000 :: int) \<le> 1762135200000 \<and>
   detectAlerts [ex_view] ([ex_sent] @ detectAlerts [ex_view] [ex_sent] ex_settings 1762128000000)
     ex_settings 1762135200000 \<noteq> []"
  by (simp add: detect_eval ex_view_fields ex_alert_defs)

theorem detectAlerts_idempotent_witness:
  "map alert_type (detectAlerts [ex_view_expiry] [ex_sent] ex_settings 1762128000000) = [Expiry] \<and>
   detectAlerts [ex_view_expiry]
     (ex_sent # detectAlerts [ex_view_expiry] [ex_sent] ex_settings 1762128000000)
     ex_settings 1762129800000 = []"
proof -
  have i: "set [ex_sent] \<union> set (detectAlerts [ex_view_expiry] [ex_sent] ex_settings 1762128000000)
        \<subseteq> set (ex_sent # detectAlerts [ex_view_expiry] [ex_sent] ex_settings 1762128000000)"
    by auto
  have k: "\<forall>a \<in> set [ex_sent].
             withinCooldown ex_settings 1762128000000 (lastSentAt a) \<longrightarrow>
             alert_status a = Pending \<or> withinCooldown ex_settings 1762129800000 (lastSentAt a)"
    by (simp add: withinCooldown_def ex_alert_defs)
  from detectAlerts_idempotent [OF i k] ex_first_run show ?thesis by simp
qed



text \<open>
  C4: the suppression test should fall back to \<open>createdAt\<close> when \<open>lastSentAt\<close>
  is absent. \<open>detectAlerts\<close> does not: a dismissed low-stock alert without
  \<open>lastSentAt\<close>, created one hour before now with a cooldown of 24 hours, does not
  suppress, and a new low-stock alert is emitted. The filter of the caller, which does
  fall back to \<open>createdAt\<close>, drops that alert.
\<close>

theorem detectAlerts_ignores_createdAt:
  "alert_status ex_dismissed = Dismissed \<and> lastSentAt ex_dismissed = None \<and>
   withinCooldown ex_settings 1762128000000 (createdAt ex_dismissed) \<and>
   map alert_type (detectAlerts [ex_view] [ex_dismissed] ex_settings 1762128000000) = [LowStock] \<and>
   uniqueAlerts (detectAlerts [ex_view] [ex_dismissed] ex_settings 1762128000000)
     [ex_dismissed] ex_settings 1762128000000 = []"
  by (simp add: detect_eval uniqueAlerts_def lastSentOrCreated_def ex_view_fields ex_alert_defs)

section \<open>Rounding to binary64\<close>

text \<open>
  The exponent found by \<open>ilog2\<close> is the right one, so a rounding is settled by its
  exponent and its significand; integers below \<open>2 ^ 53\<close> and powers of two are
  binary64 values.
\<close>

lemma pow2_powi: "pow2 e = 2 powi e"
  by (simp add: pow2_def power_int_def field_simps)

lemma pow2_pos: "0 < pow2 e"
  by (simp add: pow2_def)

lemma pow2_add: "pow2 (a + b) = pow2 a * pow2 b"
  by (simp add: pow2_powi power_int_add)

lemma pow2_diff: "pow2 (a - b) = pow2 a / pow2 b"
  by (simp add: pow2_powi power_int_diff)

lemma pow2_mono: "a \<le> b \<Longrightarrow> pow2 a \<le> pow2 b"
  by (simp add: pow2_powi power_int_increasing)

lemma pow2_strict_mono: "a < b \<Longrightarrow> pow2 a < pow2 b"
  by (simp add: pow2_powi power_int_strict_increasing)

lemma pow2_less_cancel: "pow2 a < pow2 b \<Longrightarrow> a < b"
proof (rule ccontr)
  assume l: "pow2 a < pow2 b" and "\<not> a < b"
  then have "b \<le> a" by simp
  then have "pow2 b \<le> pow2 a" by (rule pow2_mono)
  with l show False by simp
qed

lemma bit_length_0: "bit_length 0 = 0"
  by (simp add: bit_length.simps)

lemma bit_length_1: "bit_length 1 = 1"
  by (simp add: bit_length.simps [of 1] bit_length_0)

lemma bit_length_bounds:
  "0 < n \<Longrightarrow>
   1 \<le> bit_length n \<and> 2 ^ nat (bit_length n - 1) \<le> n \<and> n < 2 ^ nat (bit_length n)"
proof (induction n rule: bit_length.induct)
  case (1 n)
  show ?case
  proof (cases "n = 1")
    case True
    then show ?thesis by (simp add: bit_length_1)
  next
    case False
    with 1(2) have h: "0 < n div 2" by simp
    have nn: "\<not> n \<le> 0" using 1(2) by simp
    let ?b = "bit_length (n div 2)"
    from 1(1) [OF nn h] have IH: "1 \<le> ?b" "2 ^ nat (?b - 1) \<le> n div 2" "n div 2 < 2 ^ nat ?b"
      by simp_all
    have b: "bit_length n = 1 + ?b" using nn by (subst bit_length.simps) simp
    have s: "nat ?b = Suc (nat (?b - 1))" using IH(1) by simp
    have "(2::int) ^ nat ?b = 2 * 2 ^ nat (?b - 1)" by (subst s) simp
    also have "\<dots> \<le> 2 * (n div 2)" using IH(2) by simp
    also have "\<dots> \<le> n" by simp
    finally have lo: "2 ^ nat ?b \<le> n" .
    have "n < 2 * (n div 2) + 2" by presburger
    also have "\<dots> \<le> 2 * 2 ^ nat ?b" using IH(3) by simp
    finally have hi: "n < 2 * 2 ^ nat ?b" .
    have "nat (1 + ?b) = Suc (nat ?b)" using IH(1) by simp
    with lo hi IH(1) show ?thesis by (simp add: b)
  qed
qed

lemma bit_length_pow2_bounds:
  assumes "0 < n"
  shows "pow2 (bit_length n - 1) \<le> of_int n" and "of_int n < pow2 (bit_length n)"
proof -
  from bit_length_bounds [OF assms]
  have b: "1 \<le> bit_length n" "2 ^ nat (bit_length n - 1) \<le> n" "n < 2 ^ nat (bit_length n)"
    by simp_all
  have "pow2 (bit_length n - 1) = of_int (2 ^ nat (bit_length n - 1))"
    using b(1) by (simp add: pow2_def)
  also have "\<dots> \<le> of_int n" using b(2) by (simp only: of_int_le_iff)
  finally show "pow2 (bit_length n - 1) \<le> of_int n" .
  have "rat_of_int n < of_int (2 ^ nat (bit_length n))" using b(3) by (simp only: of_int_less_iff)
  also have "\<dots> = pow2 (bit_length n)" using b(1) by (simp add: pow2_def)
  finally show "of_int n < pow2 (bit_length n)" .
qed

lemma ilog2_bounds:
  assumes "0 < x"
  shows "pow2 (ilog2 x) \<le> x" and "x < pow2 (ilog2 x + 1)"
proof -
  obtain n d where q: "quotient_of x = (n, d)" by (cases "quotient_of x")
  then have d: "0 < d" by (rule quotient_of_denom_pos)
  from q have x: "x = of_int n / of_int d" by (rule quotient_of_div)
  with assms d have n: "0 < n" by (simp add: zero_less_divide_iff)
  let ?k = "bit_length n - bit_length d"
  note bn = bit_length_pow2_bounds [OF n] and bd = bit_length_pow2_bounds [OF d]
  have dpos: "(0::rat) < of_int d" using d by simp
  have "x < pow2 (bit_length n) / pow2 (bit_length d - 1)"
    unfolding x using n bn(2) bd(1) pow2_pos [of "bit_length d - 1"]
    by (intro frac_less) simp_all
  also have "\<dots> = pow2 (?k + 1)" by (simp add: pow2_diff [symmetric] algebra_simps)
  finally have hi: "x < pow2 (?k + 1)" .
  have "pow2 (?k - 1) = pow2 (bit_length n - 1) / pow2 (bit_length d)"
    by (simp add: pow2_diff [symmetric] algebra_simps)
  also have "\<dots> \<le> x"
    unfolding x using n bn(1) bd(2) dpos
    by (intro frac_le) simp_all
  finally have lo: "pow2 (?k - 1) \<le> x" .
  have i: "ilog2 x = (if pow2 ?k \<le> x then ?k else ?k - 1)"
    by (simp add: ilog2_def q Let_def)
  show "pow2 (ilog2 x) \<le> x" using lo by (simp add: i)
  show "x < pow2 (ilog2 x + 1)" using hi by (simp add: i not_le)
qed

lemma ilog2_unique:
  assumes "0 < x" and "pow2 e \<le> x" and "x < pow2 (e + 1)"
  shows "ilog2 x = e"
proof -
  note b = ilog2_bounds [OF assms(1)]
  have "pow2 e < pow2 (ilog2 x + 1)" using assms(2) b(2) by simp
  then have 1: "e < ilog2 x + 1" by (rule pow2_less_cancel)
  have "pow2 (ilog2 x) < pow2 (e + 1)" using assms(3) b(1) by simp
  then have 2: "ilog2 x < e + 1" by (rule pow2_less_cancel)
  from 1 2 show ?thesis by simp
qed

lemma round64_eqI:
  assumes "pow2 e \<le> \<bar>x\<bar>" and "\<bar>x\<bar> < pow2 (e + 1)" and "- 1022 \<le> e"
    and "round_half_even (x / pow2 (e - 52)) = m"
    and "y = of_int m * pow2 (e - 52)"
    and "\<bar>y\<bar> < pow2 1024"
  shows "round64 x = Finite y"
proof -
  have p: "0 < \<bar>x\<bar>" using assms(1) pow2_pos [of e] by simp
  then have nz: "x \<noteq> 0" by simp
  have i: "ilog2 \<bar>x\<bar> = e" using p assms(1,2) by (rule ilog2_unique)
  have e: "max (ilog2 \<bar>x\<bar>) (- 1022) = e" using assms(3) by (simp add: i)
  show ?thesis
    unfolding round64_def Let_def e using nz assms(4,5,6) by simp
qed

lemma round_half_even_int: "round_half_even (of_int z) = z"
  by (simp add: round_half_even_def)

lemma round64_int:
  assumes "\<bar>z\<bar> < 2 ^ 53"
  shows "round64 (of_int z) = Finite (of_int z)"
proof (cases "z = 0")
  case True
  then show ?thesis by (simp add: round64_def)
next
  case False
  let ?x = "rat_of_int z"
  let ?e = "ilog2 \<bar>?x\<bar>"
  have p: "0 < \<bar>?x\<bar>" using False by simp
  note b = ilog2_bounds [OF p]
  have "1 \<le> \<bar>z\<bar>" using False by simp
  then have "(1::rat) \<le> of_int \<bar>z\<bar>" by (simp only: of_int_1_le_iff)
  then have "1 \<le> \<bar>?x\<bar>" by simp
  then have "pow2 0 < pow2 (?e + 1)" using b(2) by (simp add: pow2_def)
  then have "0 < ?e + 1" by (rule pow2_less_cancel)
  then have e0: "0 \<le> ?e" by simp
  have "\<bar>?x\<bar> < pow2 53" using assms by (simp add: pow2_def flip: of_int_abs)
  then have "pow2 ?e < pow2 53" using b(1) by simp
  then have "?e < 53" by (rule pow2_less_cancel)
  then have e52: "?e \<le> 52" by simp
  define k where "k = nat (52 - ?e)"
  have u: "pow2 (?e - 52) = 1 / 2 ^ k" using e52 by (simp add: pow2_def k_def)
  have "?x / pow2 (?e - 52) = of_int (z * 2 ^ k)" by (simp add: u)
  then have r: "round_half_even (?x / pow2 (?e - 52)) = z * 2 ^ k"
    by (simp only: round_half_even_int)
  have y: "?x = of_int (z * 2 ^ k) * pow2 (?e - 52)" by (simp add: u)
  have "\<bar>?x\<bar> < pow2 1024"
    using \<open>\<bar>?x\<bar> < pow2 53\<close> pow2_mono [of 53 1024] by simp
  with b(1) b(2) e0 r y show ?thesis
    by (intro round64_eqI [where e = ?e and m = "z * 2 ^ k"]) simp_all
qed

lemma pow2_nat: "pow2 (int n) = 2 ^ n"
  by (simp add: pow2_def)

lemma ilog2_power2: "ilog2 (2 ^ n) = int n"
proof (rule ilog2_unique)
  show "(0::rat) < 2 ^ n" by simp
  show "pow2 (int n) \<le> 2 ^ n" by (simp add: pow2_nat)
  have "pow2 (int n + 1) = 2 ^ Suc n"
    using pow2_nat [of "Suc n"] by (simp add: add.commute)
  then show "2 ^ n < pow2 (int n + 1)" by simp
qed

lemma pow2_scale: "pow2 (int n - 52) * 2 ^ 52 = 2 ^ n"
proof -
  have "pow2 (int n - 52) * pow2 52 = pow2 (int n)"
    by (simp add: pow2_add [symmetric])
  moreover have "pow2 52 = 2 ^ 52" using pow2_nat [of 52] by (simp del: power_numeral)
  ultimately show ?thesis by (simp add: pow2_nat del: power_numeral)
qed

lemma round64_power2:
  "round64 (2 ^ n) = (if n < 1024 then Finite (2 ^ n) else PosInf)"
proof -
  let ?ulp = "pow2 (int n - 52)"
  have u: "?ulp * 2 ^ 52 = 2 ^ n" by (rule pow2_scale)
  have p: "0 < ?ulp" by (rule pow2_pos)
  have "(2::rat) ^ n / ?ulp = 2 ^ 52"
    using u p by (simp add: field_simps)
  also have "\<dots> = of_int (2 ^ 52)" by simp
  finally have q: "(2::rat) ^ n / ?ulp = of_int (2 ^ 52)" .
  have y: "rat_of_int (round_half_even (2 ^ n / ?ulp)) * ?ulp = 2 ^ n"
    unfolding q round_half_even_int using u by (simp add: mult.commute)
  have e: "max (ilog2 \<bar>(2::rat) ^ n\<bar>) (- 1022) = int n"
    by (simp add: ilog2_power2)
  have "pow2 1024 = 2 ^ 1024"
    using pow2_nat [of 1024] by (simp del: power_numeral)
  then have c: "pow2 1024 \<le> (2::rat) ^ n \<longleftrightarrow> 1024 \<le> n"
    by (simp del: power_numeral)
  show ?thesis
    unfolding round64_def Let_def e y using c by (simp add: not_less)
qed

lemma fadd_zero_huge: "fadd (Finite 0) (Finite (2 ^ 1023)) = Finite (2 ^ 1023)"
  using round64_power2 [of 1023] by (simp del: power_numeral)

lemma fadd_huge_huge: "fadd (Finite (2 ^ 1023)) (Finite (2 ^ 1023)) = PosInf"
proof -
  have "(2::rat) ^ 1023 + 2 ^ 1023 = 2 ^ 1024"
    using power_Suc [of "2::rat" 1023] by (simp del: power_numeral)
  then show ?thesis
    using round64_power2 [of 1024] by (simp del: power_numeral)
qed

text \<open>The roundings of the examples.\<close>

lemma round64_numeral [simp]:
  "(numeral k :: int) < 2 ^ 53 \<Longrightarrow> round64 (numeral k) = Finite (numeral k)"
  using round64_int [of "numeral k"] by simp

lemma floor_rat_numeral:
  "\<lfloor>(numeral a :: rat) / numeral b\<rfloor> = numeral a div numeral b"
  using floor_divide_of_int_eq [of "numeral a" "numeral b", where ?'a = rat] by simp

lemmas round_eval = pow2_def round_half_even_def Let_def floor_rat_numeral

lemma lit_30_4: "round64 (304 / 10) = Finite (4278419646001971 / 140737488355328)"
  apply (rule round64_eqI [where e = "4" and m = 8556839292003942])
  apply (simp_all add: round_eval)
  done

lemma lit_0_8: "round64 (8 / 10) = Finite (3602879701896397 / 4503599627370496)"
  apply (rule round64_eqI [where e = "-1" and m = 7205759403792794])
  apply (simp_all add: round_eval)
  done

lemma lit_11_9: "round64 (119 / 10) = Finite (6699104445713613 / 562949953421312)"
  apply (rule round64_eqI [where e = "3" and m = 6699104445713613])
  apply (simp_all add: round_eval)
  done

lemma lit_0_7: "round64 (7 / 10) = Finite (3152519739159347 / 4503599627370496)"
  apply (rule round64_eqI [where e = "-1" and m = 6305039478318694])
  apply (simp_all add: round_eval)
  done

lemma d_div_demand: "fdiv (Finite 304) (Finite (4278419646001971 / 140737488355328)) = Finite 10"
  apply simp
  apply (rule round64_eqI [where e = "3" and m = 5629499534213120])
  apply (simp_all add: round_eval)
  done

lemma d_mul_fresh: "fmul (Finite 3650) (Finite (3602879701896397 / 4503599627370496)) = Finite 2920"
  apply simp
  apply (rule round64_eqI [where e = "11" and m = 6421147906211840])
  apply (simp_all add: round_eval)
  done

lemma d_div_pack: "fdiv (Finite (6699104445713613 / 562949953421312)) (Finite (3152519739159347 / 4503599627370496)) = Finite 17"
  apply simp
  apply (rule round64_eqI [where e = "4" and m = 4785074604081152])
  apply (simp_all add: round_eval)
  done

lemma d_mul_pack: "fmul (Finite 17) (Finite (3152519739159347 / 4503599627370496)) = Finite (1674776111428403 / 140737488355328)"
  apply simp
  apply (rule round64_eqI [where e = "3" and m = 6699104445713612])
  apply (simp_all add: round_eval)
  done

section \<open>The order quantity over binary64 numbers\<close>

lemma dailyDemand64_calc:
  "dailyDemand (calculateItemPlanning64 itm lts sls settings currentDate) =
     fdiv (forecast64 settings (itemSales itm sls) currentDate) (round64 (304 / 10))"
  by (simp only: calculateItemPlanning64_def Let_def ItemPlanningView.select_convs)

lemma availableStock64_calc:
  "availableStock (calculateItemPlanning64 itm lts sls settings currentDate) =
     foldl (\<lambda>sum lot. fadd sum (quantityRemaining lot)) (Finite 0)
       (nonExpiredLots itm lts currentDate)"
  by (simp only: calculateItemPlanning64_def Let_def ItemPlanningView.select_convs)

lemma reorderPoint64_calc:
  "reorderPoint (calculateItemPlanning64 itm lts sls settings currentDate) =
     fadd (fmul (dailyDemand (calculateItemPlanning64 itm lts sls settings currentDate))
             (if truthy (leadTimeDays itm) then leadTimeDays itm
              else defaultLeadTimeDays settings))
          (fmul (dailyDemand (calculateItemPlanning64 itm lts sls settings currentDate))
             (safetyStockDays settings))"
  by (simp only: calculateItemPlanning64_def Let_def ItemPlanningView.select_convs)

lemma suggested64_eq:
  "suggestedOrderQty (calculateItemPlanning64 itm lts sls settings currentDate) =
     packRound64 (packSize itm) (moqRaise64 (moq itm)
       (cappedQty64 itm settings (calculateItemPlanning64 itm lts sls settings currentDate)))"
  by (simp only: calculateItemPlanning64_def Let_def packRound64_def moqRaise64_def
        cappedQty64_def ItemPlanningView.select_convs)

text \<open>
  Signs: rounding keeps the sign, so the clamps, the raise and the pack rounding give a
  value that is not negative, or NaN.
\<close>

lemma round_half_even_nonneg: "0 \<le> x \<Longrightarrow> 0 \<le> round_half_even x"
proof -
  assume "0 \<le> x"
  then have "0 \<le> \<lfloor>x\<rfloor>" by simp
  then show ?thesis by (simp add: round_half_even_def Let_def)
qed

lemma round64_nonneg: "0 \<le> x \<Longrightarrow> fle (Finite 0) (round64 x)"
proof -
  assume x: "0 \<le> x"
  let ?ulp = "pow2 (max (ilog2 \<bar>x\<bar>) (- 1022) - 52)"
  have "0 \<le> x / ?ulp" using x pow2_pos [of "max (ilog2 \<bar>x\<bar>) (- 1022) - 52"] by simp
  then have "0 \<le> round_half_even (x / ?ulp)" by (rule round_half_even_nonneg)
  then have "0 \<le> rat_of_int (round_half_even (x / ?ulp)) * ?ulp"
    using pow2_pos [of "max (ilog2 \<bar>x\<bar>) (- 1022) - 52"] by simp
  then show ?thesis using x by (auto simp: round64_def Let_def fle_def)
qed

lemma round64_not_NaN: "round64 x \<noteq> NaN"
  by (simp add: round64_def Let_def)


lemma fle0_iff: "fle (Finite 0) d \<longleftrightarrow> d = PosInf \<or> (\<exists>a. d = Finite a \<and> 0 \<le> a)"
  by (cases d) (auto simp: fle_def)

lemma flt0_iff: "flt (Finite 0) d \<longleftrightarrow> d = PosInf \<or> (\<exists>a. d = Finite a \<and> 0 < a)"
  by (cases d) auto

lemma flt0_fle0: "flt (Finite 0) d \<Longrightarrow> fle (Finite 0) d"
  by (simp add: fle_def)

lemma flt_trans: "flt a b \<Longrightarrow> flt b c \<Longrightarrow> flt a c"
  by (cases a; cases b; cases c) auto

lemma Math_max64_zero: "Math_max64 (Finite 0) x = NaN \<or> fle (Finite 0) (Math_max64 (Finite 0) x)"
  by (cases x) (auto simp: Math_max64_def fle_def)

lemma Math_min64_nonneg:
  assumes "a = NaN \<or> fle (Finite 0) a" and "b = NaN \<or> fle (Finite 0) b"
  shows "Math_min64 a b = NaN \<or> fle (Finite 0) (Math_min64 a b)"
  using assms by (auto simp: Math_min64_def)

lemma cappedQty64_nonneg:
  "cappedQty64 itm settings v = NaN \<or> fle (Finite 0) (cappedQty64 itm settings v)"
  unfolding cappedQty64_def by (rule Math_min64_nonneg) (rule Math_max64_zero)+

lemma moqRaise64_nonneg:
  assumes "s = NaN \<or> fle (Finite 0) s"
  shows "moqRaise64 m s = NaN \<or> fle (Finite 0) (moqRaise64 m s)"
proof (cases "flt (Finite 0) s \<and> flt s m")
  case True
  then have "flt (Finite 0) m" by (blast intro: flt_trans)
  then have "fle (Finite 0) m" by (rule flt0_fle0)
  then show ?thesis using True by (simp add: moqRaise64_def)
next
  case False
  then show ?thesis using assms by (auto simp: moqRaise64_def)
qed

lemma Math_ceil64_nonneg: "fle (Finite 0) d \<Longrightarrow> fle (Finite 0) (Math_ceil64 d)"
  by (auto simp: fle0_iff)

lemma fmul_nonneg_pos:
  assumes "fle (Finite 0) c" and "flt (Finite 0) p"
  shows "fmul c p = NaN \<or> fle (Finite 0) (fmul c p)"
proof -
  from assms(1) consider "c = PosInf" | a where "c = Finite a" "0 \<le> a"
    by (auto simp: fle0_iff)
  then show ?thesis
  proof cases
    case 1
    with assms(2) show ?thesis by (auto simp: flt0_iff fle_def)
  next
    case 2
    from assms(2) consider "p = PosInf" | b where "p = Finite b" "0 < b"
      by (auto simp: flt0_iff)
    then show ?thesis
    proof cases
      case 1
      with 2 show ?thesis by (auto simp: fle_def)
    next
      case (2 b)
      with \<open>c = Finite a\<close> \<open>0 \<le> a\<close> show ?thesis
        by (simp add: round64_nonneg)
    qed
  qed
qed

lemma fdiv_pos_pos:
  assumes "flt (Finite 0) s" and "flt (Finite 0) p"
  shows "fdiv s p = NaN \<or> fle (Finite 0) (fdiv s p)"
proof -
  from assms(1) consider "s = PosInf" | a where "s = Finite a" "0 < a"
    by (auto simp: flt0_iff)
  then show ?thesis
  proof cases
    case 1
    with assms(2) show ?thesis by (auto simp: flt0_iff fle_def)
  next
    case (2 a)
    from assms(2) consider "p = PosInf" | b where "p = Finite b" "0 < b"
      by (auto simp: flt0_iff)
    then show ?thesis
    proof cases
      case 1
      with 2 show ?thesis by (simp add: fle_def)
    next
      case (2 b)
      with \<open>s = Finite a\<close> \<open>0 < a\<close> show ?thesis
        by (simp add: round64_nonneg)
    qed
  qed
qed

lemma packRound64_nonneg:
  assumes "s = NaN \<or> fle (Finite 0) s"
  shows "packRound64 p s = NaN \<or> fle (Finite 0) (packRound64 p s)"
proof (cases "flt (Finite 0) s \<and> flt (Finite 0) p")
  case True
  show ?thesis
  proof (cases "fdiv s p = NaN")
    case nan: True
    then show ?thesis using True by (simp add: packRound64_def)
  next
    case False
    with fdiv_pos_pos [of s p] True have "fle (Finite 0) (fdiv s p)" by blast
    then have "fle (Finite 0) (Math_ceil64 (fdiv s p))" by (rule Math_ceil64_nonneg)
    moreover from True have "flt (Finite 0) p" by simp
    ultimately have "fmul (Math_ceil64 (fdiv s p)) p = NaN \<or>
               fle (Finite 0) (fmul (Math_ceil64 (fdiv s p)) p)"
      by (rule fmul_nonneg_pos)
    then show ?thesis using True by (simp add: packRound64_def)
  qed
next
  case False
  then show ?thesis using assms by (auto simp: packRound64_def)
qed

lemma isFinite64_iff: "isFinite64 d \<longleftrightarrow> (\<exists>a. d = Finite a)"
  by (cases d) simp_all

lemma fle0_not_NaN: "fle (Finite 0) d \<Longrightarrow> d \<noteq> NaN"
  by (auto simp: fle0_iff)

lemma fmul_Finite_not_NaN: "fmul (Finite a) (Finite b) \<noteq> NaN"
  by (simp add: round64_not_NaN)

lemma fadd_Finite_not_NaN: "x \<noteq> NaN \<Longrightarrow> fadd (Finite a) x \<noteq> NaN"
  by (cases x) (simp_all add: round64_not_NaN)

lemma fsub_Finite_not_NaN: "x \<noteq> NaN \<Longrightarrow> fsub x (Finite a) \<noteq> NaN"
  by (cases x) (simp_all add: fsub_def round64_not_NaN)

lemma fmul_pos_Finite_not_NaN: "x \<noteq> NaN \<Longrightarrow> b \<noteq> 0 \<Longrightarrow> fmul x (Finite b) \<noteq> NaN"
  by (cases x) (simp_all add: round64_not_NaN)

lemma Math_max64_zero_nonneg: "x \<noteq> NaN \<Longrightarrow> fle (Finite 0) (Math_max64 (Finite 0) x)"
  using Math_max64_zero [of x] by (auto simp: Math_max64_def)

lemma Math_min64_fle0:
  "fle (Finite 0) a \<Longrightarrow> fle (Finite 0) b \<Longrightarrow> fle (Finite 0) (Math_min64 a b)"
  by (auto simp: Math_min64_def)

lemma cappedQty64_finite:
  assumes "isFinite64 (dailyDemand v)" and "isFinite64 (availableStock v)"
    and "isFinite64 (reorderPoint v)" and "isFinite64 (reviewPeriodDays settings)"
    and "case shelfLifeDays itm of None \<Rightarrow> True | Some d \<Rightarrow> isFinite64 d"
  shows "fle (Finite 0) (cappedQty64 itm settings v)"
proof -
  from assms(1-4) obtain a s r t where
    v: "dailyDemand v = Finite a" "availableStock v = Finite s" "reorderPoint v = Finite r"
      "reviewPeriodDays settings = Finite t"
    by (auto simp: isFinite64_iff)
  from assms(5) obtain h where
    h: "(case shelfLifeDays itm of None \<Rightarrow> Finite 365 | Some d \<Rightarrow> d) = Finite h"
    by (auto simp: isFinite64_iff split: option.splits)
  have "fsub (fadd (Finite r) (fmul (Finite a) (Finite t))) (Finite s) \<noteq> NaN"
    by (intro fsub_Finite_not_NaN fadd_Finite_not_NaN fmul_Finite_not_NaN)
  then have 1: "fle (Finite 0)
      (Math_max64 (Finite 0) (fsub (fadd (Finite r) (fmul (Finite a) (Finite t))) (Finite s)))"
    by (rule Math_max64_zero_nonneg)
  have "fmul (fmul (Finite a) (Finite h)) (round64 (8 / 10)) \<noteq> NaN"
    unfolding lit_0_8 by (rule fmul_pos_Finite_not_NaN) (simp_all add: round64_not_NaN)
  then have "fsub (fmul (fmul (Finite a) (Finite h)) (round64 (8 / 10))) (Finite s) \<noteq> NaN"
    by (rule fsub_Finite_not_NaN)
  then have 2: "fle (Finite 0)
      (Math_max64 (Finite 0)
         (fsub (fmul (fmul (Finite a) (Finite h)) (round64 (8 / 10))) (Finite s)))"
    by (rule Math_max64_zero_nonneg)
  from 1 2 show ?thesis
    unfolding cappedQty64_def v h by (rule Math_min64_fle0)
qed

lemma flt_NaN_right: "flt a NaN = False"
  by (cases a) simp_all

lemma moqRaise64_fle0:
  assumes "fle (Finite 0) s"
  shows "fle (Finite 0) (moqRaise64 m s)"
  using moqRaise64_nonneg [of s m] assms
  by (auto simp: moqRaise64_def flt_NaN_right dest: fle0_not_NaN)

lemma packRound64_fle0:
  assumes "fle (Finite 0) s" and "isFinite64 p"
  shows "fle (Finite 0) (packRound64 p s)"
proof (cases "flt (Finite 0) s \<and> flt (Finite 0) p")
  case True
  with assms(2) obtain b where p: "p = Finite b" "0 < b"
    by (auto simp: isFinite64_iff)
  from True consider "s = PosInf" | a where "s = Finite a" "0 < a"
    by (auto simp: flt0_iff)
  then have "fle (Finite 0) (fmul (Math_ceil64 (fdiv s p)) p)"
  proof cases
    case 1
    with p show ?thesis by (simp add: fle_def)
  next
    case (2 a)
    then have "fle (Finite 0) (round64 (a / b))" using p by (simp add: round64_nonneg)
    then consider "round64 (a / b) = PosInf" | c where "round64 (a / b) = Finite c" "0 \<le> c"
      by (auto simp: fle0_iff)
    then show ?thesis
    proof cases
      case 1
      with 2 p show ?thesis by (simp add: fle_def)
    next
      case (2 c)
      with \<open>s = Finite a\<close> p show ?thesis by (simp add: round64_nonneg)
    qed
  qed
  with True show ?thesis by (simp add: packRound64_def)
next
  case False
  then show ?thesis using assms(1) by (auto simp: packRound64_def)
qed

text \<open>NaN goes through every later step.\<close>

lemma fadd_NaN_right: "fadd a NaN = NaN"
  by (cases a) simp_all

lemma cappedQty64_NaN: "reorderPoint v = NaN \<Longrightarrow> cappedQty64 itm settings v = NaN"
  by (simp add: cappedQty64_def fsub_def Math_max64_def Math_min64_def)

lemma moqRaise64_NaN: "moqRaise64 m NaN = NaN"
  by (simp add: moqRaise64_def)

lemma packRound64_NaN: "packRound64 p NaN = NaN"
  by (simp add: packRound64_def)

lemma h_forecast:
  "forecast64 (d_settings\<lparr>safetyStockDays := Finite 0\<rparr>) (itemSales d_item d_sales_huge) ex_date
     = PosInf"
proof -
  have i: "itemSales d_item d_sales_huge = d_sales_huge"
    by (simp add: itemSales_def d_item_def d_sales_huge_def del: power_numeral)
  have t: "foldl (\<lambda>sum s. fadd sum (quantitySold s)) (Finite 0) d_sales_huge = PosInf"
    unfolding d_sales_huge_def
    by (simp only: foldl.simps SalesHistory.select_convs fadd_zero_huge fadd_huge_huge)
  have l: "length d_sales_huge = 2" by (simp add: d_sales_huge_def)
  show ?thesis
    unfolding forecast64_def i Let_def t l by (simp add: d_settings_def)
qed

lemma h_demand:
  "dailyDemand (calculateItemPlanning64 d_item [] d_sales_huge
                  (d_settings\<lparr>safetyStockDays := Finite 0\<rparr>) ex_date) = PosInf"
  unfolding dailyDemand64_calc h_forecast lit_30_4 by simp

lemma h_reorder:
  "reorderPoint (calculateItemPlanning64 d_item [] d_sales_huge
                   (d_settings\<lparr>safetyStockDays := Finite 0\<rparr>) ex_date) = NaN"
  unfolding reorderPoint64_calc h_demand by (simp add: fadd_NaN_right)

text \<open>The examples, step by step.\<close>

lemma d_stock:
  "availableStock (calculateItemPlanning64 d_item d_lots d_sales d_settings ex_date) = Finite 275"
  unfolding availableStock64_calc
  by (simp add: nonExpiredLots_def activeLots_def d_item_def d_lots_def)

lemma d_forecast: "forecast64 d_settings (itemSales d_item d_sales) ex_date = Finite 304"
  by (simp add: forecast64_def itemSales_def d_item_def d_sales_def d_settings_def)

lemma d_demand:
  "dailyDemand (calculateItemPlanning64 d_item d_lots d_sales d_settings ex_date) = Finite 10"
  unfolding dailyDemand64_calc d_forecast lit_30_4 by (rule d_div_demand)

lemma d_reorder:
  "reorderPoint (calculateItemPlanning64 d_item d_lots d_sales d_settings ex_date) = Finite 210"
  unfolding reorderPoint64_calc d_demand
  by (simp add: truthy_def d_item_def d_settings_def)

lemma d_capped:
  "cappedQty64 d_item d_settings
     (calculateItemPlanning64 d_item d_lots d_sales d_settings ex_date) = Finite 5"
proof -
  have "fmul (fmul (Finite 10) (Finite 365)) (round64 (8 / 10)) = Finite 2920"
    unfolding lit_0_8 using d_mul_fresh by simp
  then show ?thesis
    unfolding cappedQty64_def d_demand d_reorder d_stock
    by (simp add: d_item_def d_settings_def fsub_def Math_max64_def Math_min64_def)
qed

lemma d_raised: "moqRaise64 (moq d_item) (Finite 5) = Finite (6699104445713613 / 562949953421312)"
  by (simp add: moqRaise64_def d_item_def lit_11_9)

lemma d_rounded:
  "packRound64 (packSize d_item) (Finite (6699104445713613 / 562949953421312)) =
     Finite (1674776111428403 / 140737488355328)"
proof -
  have "fmul (Math_ceil64 (fdiv (Finite (6699104445713613 / 562949953421312))
                             (Finite (3152519739159347 / 4503599627370496))))
          (Finite (3152519739159347 / 4503599627370496)) =
        Finite (1674776111428403 / 140737488355328)"
    unfolding d_div_pack using d_mul_pack by simp
  then show ?thesis
    by (simp add: packRound64_def d_item_def lit_0_7)
qed

lemma d_suggested:
  "suggestedOrderQty (calculateItemPlanning64 d_item d_lots d_sales d_settings ex_date) =
     Finite (1674776111428403 / 140737488355328)"
  by (simp only: suggested64_eq d_capped d_raised d_rounded)

text \<open>
  C5, as the code has it: the suggested order quantity is never negative. It is at least
  0 or it is NaN; and it is at least 0 whenever the daily demand, the available stock and
  the reorder point of the view, the review period, the shelf life (when set) and the
  pack size are finite.
\<close>

theorem suggestedOrderQty_nonneg_or_NaN:
  "(suggestedOrderQty (calculateItemPlanning64 itm lts sls settings currentDate) = NaN \<or>
    fle (Finite 0) (suggestedOrderQty (calculateItemPlanning64 itm lts sls settings currentDate)))
   \<and>
   (isFinite64 (dailyDemand (calculateItemPlanning64 itm lts sls settings currentDate)) \<and>
    isFinite64 (availableStock (calculateItemPlanning64 itm lts sls settings currentDate)) \<and>
    isFinite64 (reorderPoint (calculateItemPlanning64 itm lts sls settings currentDate)) \<and>
    isFinite64 (reviewPeriodDays settings) \<and>
    (case shelfLifeDays itm of None \<Rightarrow> True | Some d \<Rightarrow> isFinite64 d) \<and>
    isFinite64 (packSize itm)
    \<longrightarrow> fle (Finite 0)
          (suggestedOrderQty (calculateItemPlanning64 itm lts sls settings currentDate)))"
proof (intro conjI impI)
  show "suggestedOrderQty (calculateItemPlanning64 itm lts sls settings currentDate) = NaN \<or>
    fle (Finite 0) (suggestedOrderQty (calculateItemPlanning64 itm lts sls settings currentDate))"
    unfolding suggested64_eq
    by (intro packRound64_nonneg moqRaise64_nonneg cappedQty64_nonneg)
next
  let ?v = "calculateItemPlanning64 itm lts sls settings currentDate"
  assume h: "isFinite64 (dailyDemand ?v) \<and> isFinite64 (availableStock ?v) \<and>
    isFinite64 (reorderPoint ?v) \<and> isFinite64 (reviewPeriodDays settings) \<and>
    (case shelfLifeDays itm of None \<Rightarrow> True | Some d \<Rightarrow> isFinite64 d) \<and>
    isFinite64 (packSize itm)"
  then have "fle (Finite 0) (cappedQty64 itm settings ?v)"
    by (intro cappedQty64_finite) simp_all
  then have "fle (Finite 0) (moqRaise64 (moq itm) (cappedQty64 itm settings ?v))"
    by (rule moqRaise64_fle0)
  then have "fle (Finite 0)
      (packRound64 (packSize itm) (moqRaise64 (moq itm) (cappedQty64 itm settings ?v)))"
    using h by (intro packRound64_fle0) simp_all
  then show "fle (Finite 0) (suggestedOrderQty ?v)" by (simp only: suggested64_eq)
qed

text \<open>
  On overflow the quantity is NaN, which is not at least 0: two sales of \<open>2 ^ 1023\<close>
  sum to Infinity, the daily demand is Infinity, and with 0 safety-stock days the safety
  stock is Infinity times 0.
\<close>

theorem suggestedOrderQty_NaN_counterexample:
  "suggestedOrderQty (calculateItemPlanning64 d_item [] d_sales_huge
                        (d_settings\<lparr>safetyStockDays := Finite 0\<rparr>) ex_date) = NaN \<and>
   \<not> fle (Finite 0)
       (suggestedOrderQty (calculateItemPlanning64 d_item [] d_sales_huge
                             (d_settings\<lparr>safetyStockDays := Finite 0\<rparr>) ex_date))"
proof -
  have "suggestedOrderQty (calculateItemPlanning64 d_item [] d_sales_huge
                        (d_settings\<lparr>safetyStockDays := Finite 0\<rparr>) ex_date) = NaN"
    by (simp only: suggested64_eq cappedQty64_NaN [OF h_reorder] moqRaise64_NaN packRound64_NaN)
  then show ?thesis by (simp add: fle_def)
qed

theorem suggestedOrderQty_nonneg_or_NaN_witness:
  "isFinite64 (dailyDemand (calculateItemPlanning64 d_item d_lots d_sales d_settings ex_date)) \<and>
   isFinite64 (availableStock (calculateItemPlanning64 d_item d_lots d_sales d_settings ex_date)) \<and>
   isFinite64 (reorderPoint (calculateItemPlanning64 d_item d_lots d_sales d_settings ex_date)) \<and>
   isFinite64 (reviewPeriodDays d_settings) \<and>
   shelfLifeDays d_item = None \<and>
   isFinite64 (packSize d_item) \<and>
   fle (Finite 0)
     (suggestedOrderQty (calculateItemPlanning64 d_item d_lots d_sales d_settings ex_date))"
proof -
  have h: "isFinite64 (reviewPeriodDays d_settings)" "shelfLifeDays d_item = None"
    "isFinite64 (packSize d_item)"
    by (simp_all add: d_settings_def d_item_def lit_0_7)
  from suggestedOrderQty_nonneg_or_NaN [of d_item d_lots d_sales d_settings ex_date] h
  show ?thesis by (simp add: d_demand d_stock d_reorder)
qed

text \<open>
  C1: a positive suggested order quantity should be at least the minimum order quantity.
  With a minimum order quantity of 11.9 and a pack size of 0.7 the capped quantity 5 is
  raised to 11.9; 11.9 / 0.7 rounds to 17, and 17 * 0.7 rounds to 11.899999999999999, which
  is positive and below the minimum order quantity.
\<close>

theorem pack_rounding_below_moq:
  "moq d_item = Finite (6699104445713613 / 562949953421312) \<and>
   packSize d_item = Finite (3152519739159347 / 4503599627370496) \<and>
   suggestedOrderQty (calculateItemPlanning64 d_item d_lots d_sales d_settings ex_date) =
     Finite (1674776111428403 / 140737488355328) \<and>
   flt (Finite 0)
     (suggestedOrderQty (calculateItemPlanning64 d_item d_lots d_sales d_settings ex_date)) \<and>
   flt (suggestedOrderQty (calculateItemPlanning64 d_item d_lots d_sales d_settings ex_date))
     (moq d_item)"
proof -
  note q = d_suggested
  have m: "moq d_item = Finite (6699104445713613 / 562949953421312)"
    by (simp add: d_item_def lit_11_9)
  have p: "packSize d_item = Finite (3152519739159347 / 4503599627370496)"
    by (simp add: d_item_def lit_0_7)
  show ?thesis unfolding q m p by simp
qed

end
